theory Spec2Isabelle
  imports Complex_Main
begin

section \<open>The C type \<open>double\<close>\<close>

text \<open>
  Every number in \<^verbatim>\<open>rotations.c\<close> is a C \<^verbatim>\<open>double\<close>. The model keeps the three
  kinds of value a \<^verbatim>\<open>double\<close> can hold: a finite number, an infinity of either sign,
  and NaN. A finite value is an exact real: rounding, overflow and underflow of finite
  results are idealised away, and the two zeros \<^verbatim>\<open>+0.0\<close> and \<^verbatim>\<open>-0.0\<close> are one value
  (a zero divisor counts as \<^verbatim>\<open>+0.0\<close>). What is kept exactly is the behaviour of the
  special values, which is what the code relies on in place of error reporting:
  \<^verbatim>\<open>1./0.\<close> is \<^verbatim>\<open>+inf\<close>, \<^verbatim>\<open>0.*inf\<close> and \<^verbatim>\<open>inf-inf\<close> are NaN, NaN propagates through
  every operation, and every comparison with NaN is false.

  A statement about finite arithmetic proved in this model is a statement about the
  program only where the program's operations are exact too: \<^verbatim>\<open>2^512 * 2^512\<close> is
  \<^verbatim>\<open>inf\<close> in the program and a finite number here, \<^verbatim>\<open>2^-600 * 2^-600\<close> is \<open>0\<close> in
  the program, a sum or product is rounded there, \<^verbatim>\<open>M_PI\<close> is a double just below
  \<open>\<pi>\<close>, and \<^verbatim>\<open>cos\<close>, \<^verbatim>\<open>sin\<close>, \<^verbatim>\<open>acos\<close> and \<^verbatim>\<open>atan2\<close> are those of the platform. The
  sections headed \<^emph>\<open>in exact arithmetic\<close> hold of the model only. The other
  theorems evaluate the code at concrete inputs, or depend on special values, order
  and structure alone.
\<close>

datatype dbl = Fin real | PInf | NInf | NaN

instantiation dbl :: "{plus,uminus,minus,times,inverse,ord}"
begin

fun uminus_dbl :: "dbl \<Rightarrow> dbl" where
  "uminus_dbl (Fin a) = Fin (- a)"
| "uminus_dbl PInf = NInf"
| "uminus_dbl NInf = PInf"
| "uminus_dbl NaN = NaN"

fun plus_dbl :: "dbl \<Rightarrow> dbl \<Rightarrow> dbl" where
  "plus_dbl (Fin a) (Fin b) = Fin (a + b)"
| "plus_dbl NaN _ = NaN"
| "plus_dbl _ NaN = NaN"
| "plus_dbl PInf NInf = NaN"
| "plus_dbl NInf PInf = NaN"
| "plus_dbl PInf _ = PInf"
| "plus_dbl _ PInf = PInf"
| "plus_dbl NInf _ = NInf"
| "plus_dbl _ NInf = NInf"

definition minus_dbl :: "dbl \<Rightarrow> dbl \<Rightarrow> dbl" where
  "minus_dbl (a::dbl) (b::dbl) = (a + (- b) :: dbl)"

fun times_dbl :: "dbl \<Rightarrow> dbl \<Rightarrow> dbl" where
  "times_dbl (Fin a) (Fin b) = Fin (a * b)"
| "times_dbl NaN _ = NaN"
| "times_dbl _ NaN = NaN"
| "times_dbl PInf (Fin b) = (if b = 0 then NaN else if 0 < b then PInf else NInf)"
| "times_dbl NInf (Fin b) = (if b = 0 then NaN else if 0 < b then NInf else PInf)"
| "times_dbl (Fin a) PInf = (if a = 0 then NaN else if 0 < a then PInf else NInf)"
| "times_dbl (Fin a) NInf = (if a = 0 then NaN else if 0 < a then NInf else PInf)"
| "times_dbl PInf PInf = PInf"
| "times_dbl PInf NInf = NInf"
| "times_dbl NInf PInf = NInf"
| "times_dbl NInf NInf = PInf"

fun divide_dbl :: "dbl \<Rightarrow> dbl \<Rightarrow> dbl" where
  "divide_dbl (Fin a) (Fin b) =
     (if b \<noteq> 0 then Fin (a / b)
      else if a = 0 then NaN else if 0 < a then PInf else NInf)"
| "divide_dbl NaN _ = NaN"
| "divide_dbl _ NaN = NaN"
| "divide_dbl (Fin a) _ = Fin 0"
| "divide_dbl PInf (Fin b) = (if 0 \<le> b then PInf else NInf)"
| "divide_dbl NInf (Fin b) = (if 0 \<le> b then NInf else PInf)"
| "divide_dbl _ _ = NaN"

definition inverse_dbl :: "dbl \<Rightarrow> dbl" where
  "inverse_dbl (a::dbl) = (divide (Fin 1) a :: dbl)"

fun less_eq_dbl :: "dbl \<Rightarrow> dbl \<Rightarrow> bool" where
  "less_eq_dbl (Fin a) (Fin b) = (a \<le> b)"
| "less_eq_dbl NaN _ = False"
| "less_eq_dbl _ NaN = False"
| "less_eq_dbl NInf _ = True"
| "less_eq_dbl _ PInf = True"
| "less_eq_dbl _ _ = False"

fun less_dbl :: "dbl \<Rightarrow> dbl \<Rightarrow> bool" where
  "less_dbl (Fin a) (Fin b) = (a < b)"
| "less_dbl NaN _ = False"
| "less_dbl _ NaN = False"
| "less_dbl PInf _ = False"
| "less_dbl _ NInf = False"
| "less_dbl _ _ = True"

instance ..

end

text \<open>The C operator \<^verbatim>\<open>==\<close> on doubles: NaN is equal to nothing, itself included.\<close>

definition deq :: "dbl \<Rightarrow> dbl \<Rightarrow> bool" where
  "deq a b = (a \<noteq> NaN \<and> a = b)"

text \<open>The functions of \<^verbatim>\<open>math.h\<close> the file calls, with their results at the special values.\<close>

fun dsqrt :: "dbl \<Rightarrow> dbl" where
  "dsqrt (Fin a) = (if 0 \<le> a then Fin (sqrt a) else NaN)"
| "dsqrt PInf = PInf"
| "dsqrt NInf = NaN"
| "dsqrt NaN = NaN"

fun dfabs :: "dbl \<Rightarrow> dbl" where
  "dfabs (Fin a) = Fin \<bar>a\<bar>"
| "dfabs PInf = PInf"
| "dfabs NInf = PInf"
| "dfabs NaN = NaN"

fun dcos :: "dbl \<Rightarrow> dbl" where
  "dcos (Fin a) = Fin (cos a)"
| "dcos _ = NaN"

fun dsin :: "dbl \<Rightarrow> dbl" where
  "dsin (Fin a) = Fin (sin a)"
| "dsin _ = NaN"

fun dacos :: "dbl \<Rightarrow> dbl" where
  "dacos (Fin a) = (if - 1 \<le> a \<and> a \<le> 1 then Fin (arccos a) else NaN)"
| "dacos _ = NaN"

text \<open>
  \<^verbatim>\<open>atan2(y, x)\<close>: the angle of the point \<open>(x, y)\<close>, in \<open>[-\<pi>, \<pi>]\<close>; the C standard fixes
  the results at zeros and infinities (with one zero, \<^verbatim>\<open>atan2(0, x)\<close> is \<open>\<pi>\<close> for
  negative \<open>x\<close>).
\<close>

definition atan2_real :: "real \<Rightarrow> real \<Rightarrow> real" where
  "atan2_real b a =
     (if 0 < a then arctan (b / a)
      else if a < 0 then (if 0 \<le> b then arctan (b / a) + pi else arctan (b / a) - pi)
      else if 0 < b then pi / 2
      else if b < 0 then - (pi / 2)
      else 0)"

fun datan2 :: "dbl \<Rightarrow> dbl \<Rightarrow> dbl" where
  "datan2 (Fin b) (Fin a) = Fin (atan2_real b a)"
| "datan2 NaN _ = NaN"
| "datan2 _ NaN = NaN"
| "datan2 (Fin b) PInf = Fin 0"
| "datan2 (Fin b) NInf = (if 0 \<le> b then Fin pi else Fin (- pi))"
| "datan2 PInf (Fin a) = Fin (pi / 2)"
| "datan2 NInf (Fin a) = Fin (- (pi / 2))"
| "datan2 PInf PInf = Fin (pi / 4)"
| "datan2 PInf NInf = Fin (3 * pi / 4)"
| "datan2 NInf PInf = Fin (- (pi / 4))"
| "datan2 NInf NInf = Fin (- (3 * pi / 4))"

text \<open>\<^verbatim>\<open>M_PI\<close> of \<^verbatim>\<open>math.h\<close>, and the file's own \<^verbatim>\<open>#define MIN_INC 1.e-8\<close>.\<close>

definition M_PI :: dbl where
  "M_PI = Fin pi"

definition MIN_INC :: dbl where
  "MIN_INC = Fin (1 / 10 ^ 8)"

section \<open>The structs of \<^verbatim>\<open>rebound.h\<close>\<close>

text \<open>
  \<^verbatim>\<open>struct reb_particle\<close> and \<^verbatim>\<open>struct reb_simulation\<close> are declared in \<^verbatim>\<open>rebound.h\<close>.
  The file reads and writes the fields \<open>x, y, z, vx, vy, vz\<close> of a particle and the
  fields \<open>N\<close> and \<open>particles\<close> of a simulation. All other fields of either struct are
  the \<open>more\<close> part of the record. A \<^verbatim>\<open>struct reb_particle*\<close> array is a list; its length
  is the number of allocated particles.
\<close>

record reb_particle =
  x :: dbl
  y :: dbl
  z :: dbl
  vx :: dbl
  vy :: dbl
  vz :: dbl

record 'a reb_simulation =
  N :: int
  particles :: "'a reb_particle_scheme list"

record reb_vec3d =
  x :: dbl
  y :: dbl
  z :: dbl

record reb_rotation =
  ix :: dbl
  iy :: dbl
  iz :: dbl
  r :: dbl

section \<open>Vector functions\<close>

definition reb_vec3d_mul :: "reb_vec3d \<Rightarrow> dbl \<Rightarrow> reb_vec3d" where
  "reb_vec3d_mul v s = \<lparr>x = s * x v, y = s * y v, z = s * z v\<rparr>"

definition reb_vec3d_add :: "reb_vec3d \<Rightarrow> reb_vec3d \<Rightarrow> reb_vec3d" where
  "reb_vec3d_add v w = \<lparr>x = x v + x w, y = y v + y w, z = z v + z w\<rparr>"

definition reb_vec3d_cross :: "reb_vec3d \<Rightarrow> reb_vec3d \<Rightarrow> reb_vec3d" where
  "reb_vec3d_cross a b =
     \<lparr>x = y a * z b - z a * y b,
      y = z a * x b - x a * z b,
      z = x a * y b - y a * x b\<rparr>"

definition reb_vec3d_dot :: "reb_vec3d \<Rightarrow> reb_vec3d \<Rightarrow> dbl" where
  "reb_vec3d_dot a b = x a * x b + y a * y b + z a * z b"

definition reb_vec3d_length_squared :: "reb_vec3d \<Rightarrow> dbl" where
  "reb_vec3d_length_squared v = reb_vec3d_dot v v"

definition reb_vec3d_normalize :: "reb_vec3d \<Rightarrow> reb_vec3d" where
  "reb_vec3d_normalize v = reb_vec3d_mul v (Fin 1 / dsqrt (reb_vec3d_length_squared v))"

section \<open>Quaternion functions\<close>

definition reb_rotation_imag :: "reb_rotation \<Rightarrow> reb_vec3d" where
  "reb_rotation_imag q = \<lparr>x = ix q, y = iy q, z = iz q\<rparr>"

definition reb_rotation_mul :: "reb_rotation \<Rightarrow> reb_rotation \<Rightarrow> reb_rotation" where
  "reb_rotation_mul p q =
     \<lparr>ix = r p * ix q + ix p * r q + iy p * iz q - iz p * iy q,
      iy = r p * iy q - ix p * iz q + iy p * r q + iz p * ix q,
      iz = r p * iz q + ix p * iy q - iy p * ix q + iz p * r q,
      r = r p * r q - ix p * ix q - iy p * iy q - iz p * iz q\<rparr>"

definition reb_rotation_length_squared :: "reb_rotation \<Rightarrow> dbl" where
  "reb_rotation_length_squared q = r q * r q + ix q * ix q + iy q * iy q + iz q * iz q"

definition reb_rotation_conjugate :: "reb_rotation \<Rightarrow> reb_rotation" where
  "reb_rotation_conjugate q = \<lparr>ix = - ix q, iy = - iy q, iz = - iz q, r = r q\<rparr>"

definition reb_rotation_inverse :: "reb_rotation \<Rightarrow> reb_rotation" where
  "reb_rotation_inverse q =
     (let c = reb_rotation_conjugate q;
          rl2 = Fin 1 / reb_rotation_length_squared q
      in \<lparr>ix = ix c * rl2, iy = iy c * rl2, iz = iz c * rl2, r = r c * rl2\<rparr>)"

section \<open>Rotating vectors, particles and simulations\<close>

text \<open>
  \<^verbatim>\<open>reb_vec3d_irotate\<close> overwrites the vector behind its pointer argument; the model
  returns the vector after the call. \<^verbatim>\<open>reb_vec3d_rotate\<close> does the same on a copy.
\<close>

definition reb_vec3d_irotate :: "reb_vec3d \<Rightarrow> reb_rotation \<Rightarrow> reb_vec3d" where
  "reb_vec3d_irotate v q =
     (let imag = reb_rotation_imag q;
          t = reb_vec3d_mul (reb_vec3d_cross imag v) (Fin 2);
          res = reb_vec3d_add v
                  (reb_vec3d_add (reb_vec3d_mul t (r q)) (reb_vec3d_cross imag t))
      in v\<lparr>x := x res, y := y res, z := z res\<rparr>)"

definition reb_vec3d_rotate :: "reb_vec3d \<Rightarrow> reb_rotation \<Rightarrow> reb_vec3d" where
  "reb_vec3d_rotate v q = reb_vec3d_irotate v q"

definition reb_particle_irotate ::
  "'a reb_particle_scheme \<Rightarrow> reb_rotation \<Rightarrow> 'a reb_particle_scheme" where
  "reb_particle_irotate p q =
     (let pos = reb_vec3d_irotate
                  \<lparr>x = reb_particle.x p, y = reb_particle.y p, z = reb_particle.z p\<rparr> q;
          p1 = p\<lparr>reb_particle.x := x pos, reb_particle.y := y pos, reb_particle.z := z pos\<rparr>;
          vel = reb_vec3d_irotate \<lparr>x = vx p1, y = vy p1, z = vz p1\<rparr> q
      in p1\<lparr>vx := x vel, vy := y vel, vz := z vel\<rparr>)"

text \<open>
  The loop \<^verbatim>\<open>for (int i = 0; i < N; i++)\<close> of \<^verbatim>\<open>reb_simulation_irotate\<close>, from the
  index \<open>i\<close> on. Reading \<^verbatim>\<open>sim->particles[i]\<close> beyond the allocated array is
  undefined in C; the model stops with \<open>None\<close> there. \<open>N\<close> and \<open>i\<close> are C
  \<^verbatim>\<open>int\<close>s; the counter is incremented only while it is below \<open>N\<close>, so it never
  overflows, and the model uses unbounded integers.
\<close>

function irotate_from ::
  "reb_rotation \<Rightarrow> int \<Rightarrow> int \<Rightarrow> 'a reb_particle_scheme list
     \<Rightarrow> 'a reb_particle_scheme list option" where
  "irotate_from q n i ps =
     (if i < n then
        (if 0 \<le> i \<and> nat i < length ps
         then irotate_from q n (i + 1) (ps[nat i := reb_particle_irotate (ps ! nat i) q])
         else None)
      else Some ps)"
  by pat_completeness auto
termination
  by (relation "measure (\<lambda>(q, n, i, ps). nat (n - i))") auto

declare irotate_from.simps [simp del]

definition reb_simulation_irotate ::
  "'a reb_simulation \<Rightarrow> reb_rotation \<Rightarrow> 'a reb_simulation option" where
  "reb_simulation_irotate sim q =
     (case irotate_from q (N sim) 0 (particles sim) of
        None \<Rightarrow> None
      | Some ps \<Rightarrow> Some (sim\<lparr>particles := ps\<rparr>))"

section \<open>Building rotations\<close>

definition reb_rotation_identity :: reb_rotation where
  "reb_rotation_identity = \<lparr>ix = Fin 0, iy = Fin 0, iz = Fin 0, r = Fin 1\<rparr>"

definition reb_rotation_init_from_to_reduced :: "reb_vec3d \<Rightarrow> reb_vec3d \<Rightarrow> reb_rotation" where
  "reb_rotation_init_from_to_reduced from to =
     (let half = reb_vec3d_normalize
                   \<lparr>x = x from + x to, y = y from + y to, z = z from + z to\<rparr>;
          cross = reb_vec3d_cross from half;
          dot = reb_vec3d_dot from half
      in \<lparr>ix = x cross, iy = y cross, iz = z cross, r = dot\<rparr>)"

text \<open>
  The body of the branch \<^verbatim>\<open>if (reb_vec3d_length_squared(half) == 0)\<close> of
  \<^verbatim>\<open>reb_rotation_init_from_to\<close> (lines 188 to 204), as a function of the normalised
  \<open>from\<close> it reads.
\<close>

definition from_to_fallback :: "reb_vec3d \<Rightarrow> reb_rotation" where
  "from_to_fallback from =
     (let abs_from = \<lparr>x = dfabs (x from), y = dfabs (y from), z = dfabs (z from)\<rparr>
      in if x abs_from \<le> y abs_from \<and> x abs_from \<le> z abs_from then
           (let axis = reb_vec3d_cross from \<lparr>x = Fin 1, y = Fin 0, z = Fin 0\<rparr>
            in \<lparr>ix = x axis, iy = y axis, iz = z axis, r = Fin 0\<rparr>)
         else if y abs_from \<le> z abs_from then
           (let axis = reb_vec3d_cross from \<lparr>x = Fin 0, y = Fin 1, z = Fin 0\<rparr>
            in \<lparr>ix = x axis, iy = y axis, iz = z axis, r = Fin 0\<rparr>)
         else
           (let axis = reb_vec3d_cross from \<lparr>x = Fin 0, y = Fin 0, z = Fin 1\<rparr>
            in \<lparr>ix = x axis, iy = y axis, iz = z axis, r = Fin 0\<rparr>))"

definition reb_rotation_init_from_to :: "reb_vec3d \<Rightarrow> reb_vec3d \<Rightarrow> reb_rotation" where
  "reb_rotation_init_from_to from0 to0 =
     (let from = reb_vec3d_normalize from0;
          to = reb_vec3d_normalize to0
      in if Fin 0 \<le> reb_vec3d_dot from to then reb_rotation_init_from_to_reduced from to
         else
           (let half = reb_vec3d_normalize
                         \<lparr>x = x from + x to, y = y from + y to, z = z from + z to\<rparr>
            in if deq (reb_vec3d_length_squared half) (Fin 0) then from_to_fallback from
               else reb_rotation_mul (reb_rotation_init_from_to_reduced from half)
                                     (reb_rotation_init_from_to_reduced half to)))"

definition reb_rotation_init_angle_axis :: "dbl \<Rightarrow> reb_vec3d \<Rightarrow> reb_rotation" where
  "reb_rotation_init_angle_axis angle axis0 =
     (let axis = reb_vec3d_normalize axis0;
          cos2 = dcos (angle / Fin 2);
          sin2 = dsin (angle / Fin 2);
          imag = reb_vec3d_mul axis sin2
      in \<lparr>ix = x imag, iy = y imag, iz = z imag, r = cos2\<rparr>)"

definition reb_rotation_init_to_new_axes :: "reb_vec3d \<Rightarrow> reb_vec3d \<Rightarrow> reb_rotation" where
  "reb_rotation_init_to_new_axes newz newx0 =
     (let zax = \<lparr>x = Fin 0, y = Fin 0, z = Fin 1\<rparr>;
          q1 = reb_rotation_init_from_to newz zax;
          xax = \<lparr>x = Fin 1, y = Fin 0, z = Fin 0\<rparr>;
          newx = reb_vec3d_irotate newx0 q1;
          q2 = reb_rotation_init_from_to newx xax
      in reb_rotation_mul q2 q1)"

definition reb_rotation_init_orbital :: "dbl \<Rightarrow> dbl \<Rightarrow> dbl \<Rightarrow> reb_rotation" where
  "reb_rotation_init_orbital Omega inc omega =
     (let xax = \<lparr>x = Fin 1, y = Fin 0, z = Fin 0\<rparr>;
          zax = \<lparr>x = Fin 0, y = Fin 0, z = Fin 1\<rparr>;
          P1 = reb_rotation_init_angle_axis omega zax;
          P2 = reb_rotation_init_angle_axis inc xax;
          P3 = reb_rotation_init_angle_axis Omega zax
      in reb_rotation_mul P3 (reb_rotation_mul P2 P1))"

section \<open>Orbital angles of a rotation\<close>

text \<open>
  \<^verbatim>\<open>reb_rotation_to_orbital\<close> writes its results through three pointers; the model
  returns them as the triple \<open>(Omega, inc, omega)\<close>, in the order of the parameters.
\<close>

definition reb_rotation_to_orbital :: "reb_rotation \<Rightarrow> dbl \<times> dbl \<times> dbl" where
  "reb_rotation_to_orbital q =
     (let ap = r q; bp = iz q; cp = ix q; dp = iy q;
          inc = dacos (Fin 2 * (ap * ap + bp * bp) - Fin 1);
          safe1 = (MIN_INC < dfabs inc);
          safe2 = (MIN_INC < dfabs (inc - M_PI));
          (Omega, omega) =
             (if safe1 \<and> safe2 then
                (let half_sum = datan2 bp ap; half_diff = datan2 dp cp
                 in (half_sum + half_diff, half_sum - half_diff))
              else if \<not> safe1 then (Fin 0, Fin 2 * datan2 bp ap)
              else (Fin 0, Fin 2 * datan2 dp cp));
          omega' = (if omega < Fin 0 then omega + M_PI * Fin 2 else omega);
          Omega' = (if Omega < Fin 0 then Omega + M_PI * Fin 2 else Omega)
      in (Omega', inc, omega'))"

section \<open>Vocabulary of the statements\<close>

text \<open>
  A vector of real numbers is a \<open>reb_vec3d\<close> whose three fields are finite; likewise a
  quaternion. A unit vector and a unit quaternion have squared norm exactly \<open>1\<close>.
\<close>

fun is_fin :: "dbl \<Rightarrow> bool" where
  "is_fin (Fin a) = True"
| "is_fin _ = False"

definition fin_vec :: "reb_vec3d \<Rightarrow> bool" where
  "fin_vec v = (is_fin (x v) \<and> is_fin (y v) \<and> is_fin (z v))"

definition fin_rot :: "reb_rotation \<Rightarrow> bool" where
  "fin_rot q = (is_fin (ix q) \<and> is_fin (iy q) \<and> is_fin (iz q) \<and> is_fin (r q))"

definition zero_vec :: "reb_vec3d \<Rightarrow> bool" where
  "zero_vec v = (x v = Fin 0 \<and> y v = Fin 0 \<and> z v = Fin 0)"

definition unit_vec :: "reb_vec3d \<Rightarrow> bool" where
  "unit_vec v = (reb_vec3d_length_squared v = Fin 1)"

definition unit_rot :: "reb_rotation \<Rightarrow> bool" where
  "unit_rot q = (reb_rotation_length_squared q = Fin 1)"

section \<open>Finite values\<close>

lemma minus_Fin [simp]: "Fin a - Fin b = Fin (a - b)"
  by (simp add: minus_dbl_def)

lemma is_fin_iff: "is_fin d \<longleftrightarrow> (\<exists>a. d = Fin a)"
  by (cases d) simp_all

lemma plus_Fin_D: "a + b = Fin c \<Longrightarrow> is_fin a \<and> is_fin b"
  by (cases a; cases b) simp_all

lemma times_Fin_D: "a * b = Fin c \<Longrightarrow> is_fin a \<and> is_fin b"
  by (cases a; cases b) (simp_all split: if_splits)

lemma fin_vec_cases:
  assumes "fin_vec v"
  obtains a b c where "v = \<lparr>x = Fin a, y = Fin b, z = Fin c\<rparr>"
  using assms by (cases v) (auto simp: fin_vec_def is_fin_iff)

lemma fin_rot_cases:
  assumes "fin_rot q"
  obtains a b c d where "q = \<lparr>ix = Fin a, iy = Fin b, iz = Fin c, r = Fin d\<rparr>"
  using assms by (cases q) (auto simp: fin_rot_def is_fin_iff)

text \<open>A quaternion of squared norm \<open>1\<close> has no infinite and no NaN component.\<close>

lemma unit_rot_fin: "unit_rot q \<Longrightarrow> fin_rot q"
proof -
  assume "unit_rot q"
  then have e: "r q * r q + ix q * ix q + iy q * iy q + iz q * iz q = Fin 1"
    by (simp add: unit_rot_def reb_rotation_length_squared_def)
  from plus_Fin_D[OF e] have e3: "is_fin (r q * r q + ix q * ix q + iy q * iy q)"
    and f3: "is_fin (iz q * iz q)" by simp_all
  from e3 obtain c3 where g3: "r q * r q + ix q * ix q + iy q * iy q = Fin c3"
    by (auto simp: is_fin_iff)
  from plus_Fin_D[OF g3] have e2: "is_fin (r q * r q + ix q * ix q)"
    and f2: "is_fin (iy q * iy q)" by simp_all
  from e2 obtain c2 where g2: "r q * r q + ix q * ix q = Fin c2"
    by (auto simp: is_fin_iff)
  from plus_Fin_D[OF g2] have f0: "is_fin (r q * r q)"
    and f1: "is_fin (ix q * ix q)" by simp_all
  from f0 f1 f2 f3 show "fin_rot q"
    by (auto simp: fin_rot_def is_fin_iff dest: times_Fin_D)
qed

lemma unit_rot_cases:
  assumes "unit_rot q"
  obtains a b c d where "q = \<lparr>ix = Fin a, iy = Fin b, iz = Fin c, r = Fin d\<rparr>"
    and "d * d + a * a + b * b + c * c = 1"
proof -
  obtain a b c d where q: "q = \<lparr>ix = Fin a, iy = Fin b, iz = Fin c, r = Fin d\<rparr>"
    using unit_rot_fin[OF assms] by (rule fin_rot_cases)
  moreover have "d * d + a * a + b * b + c * c = 1"
    using assms by (simp add: unit_rot_def reb_rotation_length_squared_def q)
  ultimately show ?thesis by (rule that)
qed

section \<open>The quaternion product composes rotations, in exact arithmetic\<close>

text \<open>
  Without rounding and overflow, rotating a finite vector by \<^verbatim>\<open>reb_rotation_mul(p, q)\<close>,
  for unit quaternions \<open>p\<close> and \<open>q\<close>, is rotating it by \<open>q\<close> first and by \<open>p\<close> second.
\<close>

lemma rotate_mul_unit:
  assumes "fin_vec v" "unit_rot p" "unit_rot q"
  shows "reb_vec3d_rotate v (reb_rotation_mul p q)
         = reb_vec3d_rotate (reb_vec3d_rotate v q) p"
proof -
  obtain v1 v2 v3 where v: "v = \<lparr>x = Fin v1, y = Fin v2, z = Fin v3\<rparr>"
    using assms(1) by (rule fin_vec_cases)
  obtain p1 p2 p3 p0 where p: "p = \<lparr>ix = Fin p1, iy = Fin p2, iz = Fin p3, r = Fin p0\<rparr>"
    and np: "p0 * p0 + p1 * p1 + p2 * p2 + p3 * p3 = 1"
    using assms(2) by (rule unit_rot_cases)
  obtain q1 q2 q3 q0 where q: "q = \<lparr>ix = Fin q1, iy = Fin q2, iz = Fin q3, r = Fin q0\<rparr>"
    and nq: "q0 * q0 + q1 * q1 + q2 * q2 + q3 * q3 = 1"
    using assms(3) by (rule unit_rot_cases)
  show ?thesis
    apply (simp add: v p q reb_vec3d_rotate_def reb_vec3d_irotate_def reb_rotation_mul_def
        reb_rotation_imag_def reb_vec3d_mul_def reb_vec3d_add_def reb_vec3d_cross_def Let_def)
    using np nq
    apply (intro conjI)
      apply algebra
     apply algebra
    apply algebra
    done
qed

section \<open>The inverse quaternion, in exact arithmetic\<close>

text \<open>
  Without rounding and overflow, for a finite quaternion \<open>q\<close> whose squared norm is
  not zero, \<^verbatim>\<open>reb_rotation_inverse(q)\<close> is the conjugate of \<open>q\<close> with each component
  divided by the squared norm, and its product with \<open>q\<close> is the identity quaternion.
\<close>

lemma mul_inverse_exact:
  assumes "fin_rot q" and "reb_rotation_length_squared q \<noteq> Fin 0"
  shows "reb_rotation_mul q (reb_rotation_inverse q) = reb_rotation_identity
         \<and> reb_rotation_inverse q =
             \<lparr>ix = ix (reb_rotation_conjugate q) / reb_rotation_length_squared q,
              iy = iy (reb_rotation_conjugate q) / reb_rotation_length_squared q,
              iz = iz (reb_rotation_conjugate q) / reb_rotation_length_squared q,
              r = r (reb_rotation_conjugate q) / reb_rotation_length_squared q\<rparr>"
proof -
  obtain q1 q2 q3 q0 where q: "q = \<lparr>ix = Fin q1, iy = Fin q2, iz = Fin q3, r = Fin q0\<rparr>"
    using assms(1) by (rule fin_rot_cases)
  have n: "q0 * q0 + q1 * q1 + q2 * q2 + q3 * q3 \<noteq> 0"
    using assms(2) by (simp add: reb_rotation_length_squared_def q)
  define k where "k = inverse (q0 * q0 + q1 * q1 + q2 * q2 + q3 * q3)"
  have kn: "k * (q0 * q0 + q1 * q1 + q2 * q2 + q3 * q3) = 1"
    using n by (simp add: k_def)
  have inv: "reb_rotation_inverse q =
      \<lparr>ix = Fin (- q1 * k), iy = Fin (- q2 * k), iz = Fin (- q3 * k), r = Fin (q0 * k)\<rparr>"
    using n
    by (simp add: q reb_rotation_inverse_def reb_rotation_conjugate_def
        reb_rotation_length_squared_def Let_def k_def divide_inverse)
  have e: "q0 * (q0 * k) + q1 * (q1 * k) + q2 * (q2 * k) + q3 * (q3 * k) = 1"
    using kn by algebra
  have "reb_rotation_mul q (reb_rotation_inverse q) = reb_rotation_identity"
    unfolding inv by (simp add: q reb_rotation_mul_def reb_rotation_identity_def e)
  moreover have "reb_rotation_inverse q =
             \<lparr>ix = ix (reb_rotation_conjugate q) / reb_rotation_length_squared q,
              iy = iy (reb_rotation_conjugate q) / reb_rotation_length_squared q,
              iz = iz (reb_rotation_conjugate q) / reb_rotation_length_squared q,
              r = r (reb_rotation_conjugate q) / reb_rotation_length_squared q\<rparr>"
    unfolding inv using n
    by (simp add: q reb_rotation_conjugate_def reb_rotation_length_squared_def k_def
        divide_inverse)
  ultimately show ?thesis by simp
qed

section \<open>Particles and simulations: what a rotation touches\<close>

lemma irotate_from_spec:
  "0 \<le> i \<Longrightarrow> n \<le> int (length ps) \<Longrightarrow>
   \<exists>ps'. irotate_from q n i ps = Some ps' \<and> length ps' = length ps \<and>
     (\<forall>j < length ps. ps' ! j =
        (if nat i \<le> j \<and> int j < n then reb_particle_irotate (ps ! j) q else ps ! j))"
proof (induction q n i ps rule: irotate_from.induct)
  case (1 q n i ps)
  show ?case
  proof (cases "i < n")
    case False
    have "irotate_from q n i ps = Some ps"
      using False by (subst irotate_from.simps) simp
    then show ?thesis using False by auto
  next
    case True
    with 1 have inb: "0 \<le> i \<and> nat i < length ps" by auto
    define ps1 where "ps1 = ps[nat i := reb_particle_irotate (ps ! nat i) q]"
    have len1: "length ps1 = length ps" by (simp add: ps1_def)
    have "\<exists>ps'. irotate_from q n (i + 1) ps1 = Some ps' \<and> length ps' = length ps1 \<and>
     (\<forall>j < length ps1. ps' ! j =
        (if nat (i + 1) \<le> j \<and> int j < n then reb_particle_irotate (ps1 ! j) q else ps1 ! j))"
      unfolding ps1_def
      apply (rule "1.IH")
      using True inb "1.prems" by simp_all
    then obtain ps' where
      a: "irotate_from q n (i + 1) ps1 = Some ps'"
      and b: "length ps' = length ps1"
      and c: "\<forall>j < length ps1. ps' ! j =
        (if nat (i + 1) \<le> j \<and> int j < n then reb_particle_irotate (ps1 ! j) q else ps1 ! j)"
      by blast
    have "irotate_from q n i ps = irotate_from q n (i + 1) ps1"
      using True inb unfolding ps1_def by (subst irotate_from.simps) simp
    then have r1: "irotate_from q n i ps = Some ps'" using a by simp
    have r2: "length ps' = length ps" using b len1 by simp
    have r3: "\<forall>j < length ps. ps' ! j =
        (if nat i \<le> j \<and> int j < n then reb_particle_irotate (ps ! j) q else ps ! j)"
    proof (intro allI impI)
      fix j assume j: "j < length ps"
      have cj: "ps' ! j =
        (if nat (i + 1) \<le> j \<and> int j < n then reb_particle_irotate (ps1 ! j) q else ps1 ! j)"
        using c j len1 by simp
      have ni: "nat (i + 1) = Suc (nat i)" using inb by (simp add: nat_add_distrib)
      show "ps' ! j = (if nat i \<le> j \<and> int j < n then reb_particle_irotate (ps ! j) q else ps ! j)"
      proof (cases "j = nat i")
        case True
        have "ps1 ! j = reb_particle_irotate (ps ! j) q"
          using True j by (simp add: ps1_def)
        moreover have "int j < n" using True \<open>i < n\<close> inb by simp
        ultimately show ?thesis using cj ni True by simp
      next
        case False
        have "ps1 ! j = ps ! j" using False by (simp add: ps1_def)
        moreover have "(nat (i + 1) \<le> j) = (nat i \<le> j)" using False ni by auto
        ultimately show ?thesis using cj by simp
      qed
    qed
    show ?thesis using r1 r2 r3 by blast
  qed
qed

lemma irotate_from_0:
  assumes "n \<le> int (length ps)"
  shows "irotate_from q n 0 ps =
         Some (map (\<lambda>p. reb_particle_irotate p q) (take (nat n) ps) @ drop (nat n) ps)"
proof -
  have "\<exists>ps'. irotate_from q n 0 ps = Some ps' \<and> length ps' = length ps \<and>
     (\<forall>j < length ps. ps' ! j =
        (if nat 0 \<le> j \<and> int j < n then reb_particle_irotate (ps ! j) q else ps ! j))"
    by (rule irotate_from_spec) (use assms in simp_all)
  then obtain ps' where
    a: "irotate_from q n 0 ps = Some ps'" and b: "length ps' = length ps"
    and c: "\<forall>j < length ps. ps' ! j =
        (if int j < n then reb_particle_irotate (ps ! j) q else ps ! j)"
    by auto
  have "ps' = map (\<lambda>p. reb_particle_irotate p q) (take (nat n) ps) @ drop (nat n) ps"
  proof (rule nth_equalityI)
    show "length ps' = length (map (\<lambda>p. reb_particle_irotate p q) (take (nat n) ps) @ drop (nat n) ps)"
      using b assms by auto
  next
    fix j assume "j < length ps'"
    then have j: "j < length ps" using b by simp
    show "ps' ! j = (map (\<lambda>p. reb_particle_irotate p q) (take (nat n) ps) @ drop (nat n) ps) ! j"
    proof (cases "int j < n")
      case True
      then have "j < nat n" by simp
      then show ?thesis using c j True by (simp add: nth_append)
    next
      case False
      then have "nat n \<le> j" by simp
      then show ?thesis using c j False assms by (simp add: nth_append min_def)
    qed
  qed
  with a show ?thesis by simp
qed

text \<open>
  Claim C9. \<^verbatim>\<open>reb_particle_irotate\<close> leaves every field of the particle other than
  \<open>x, y, z, vx, vy, vz\<close> as it was (the \<open>more\<close> part of the record), and the new
  position and the new velocity are the old ones, each rotated by \<open>q\<close>. When the
  array holds at least \<open>N\<close> particles, \<^verbatim>\<open>reb_simulation_irotate\<close> returns, and the
  simulation it leaves differs from the old one in the field \<open>particles\<close> only: the
  first \<open>N\<close> particles are rotated, each by the particle operation, and the particles
  from index \<open>N\<close> on are untouched.
\<close>

theorem reb_simulation_irotate_frame:
  "reb_particle.more (reb_particle_irotate p q) = reb_particle.more p
   \<and> \<lparr>x = reb_particle.x (reb_particle_irotate p q),
       y = reb_particle.y (reb_particle_irotate p q),
       z = reb_particle.z (reb_particle_irotate p q)\<rparr>
     = reb_vec3d_rotate \<lparr>x = reb_particle.x p, y = reb_particle.y p, z = reb_particle.z p\<rparr> q
   \<and> \<lparr>x = vx (reb_particle_irotate p q),
       y = vy (reb_particle_irotate p q),
       z = vz (reb_particle_irotate p q)\<rparr>
     = reb_vec3d_rotate \<lparr>x = vx p, y = vy p, z = vz p\<rparr> q
   \<and> (N sim \<le> int (length (particles sim)) \<longrightarrow>
        reb_simulation_irotate sim q =
          Some (sim\<lparr>particles :=
                  map (\<lambda>p. reb_particle_irotate p q) (take (nat (N sim)) (particles sim))
                  @ drop (nat (N sim)) (particles sim)\<rparr>))"
  by (simp add: reb_particle_irotate_def reb_vec3d_rotate_def reb_vec3d_irotate_def Let_def
        reb_simulation_irotate_def irotate_from_0)

theorem reb_simulation_irotate_frame_witness:
  "N \<lparr>N = 1, particles =
        [\<lparr>reb_particle.x = Fin 1, y = Fin 0, z = Fin 0, vx = Fin 0, vy = Fin 2, vz = Fin 0\<rparr>,
         \<lparr>reb_particle.x = Fin 3, y = Fin 0, z = Fin 0, vx = Fin 0, vy = Fin 0, vz = Fin 4\<rparr>]\<rparr>
     \<le> int (length (particles \<lparr>N = 1, particles =
        [\<lparr>reb_particle.x = Fin 1, y = Fin 0, z = Fin 0, vx = Fin 0, vy = Fin 2, vz = Fin 0\<rparr>,
         \<lparr>reb_particle.x = Fin 3, y = Fin 0, z = Fin 0, vx = Fin 0, vy = Fin 0, vz = Fin 4\<rparr>]\<rparr>))
   \<and> reb_simulation_irotate
        \<lparr>N = 1, particles =
          [\<lparr>reb_particle.x = Fin 1, y = Fin 0, z = Fin 0, vx = Fin 0, vy = Fin 2, vz = Fin 0\<rparr>,
           \<lparr>reb_particle.x = Fin 3, y = Fin 0, z = Fin 0, vx = Fin 0, vy = Fin 0, vz = Fin 4\<rparr>]\<rparr>
        \<lparr>ix = Fin 0, iy = Fin 0, iz = Fin 1, r = Fin 0\<rparr>
     = Some \<lparr>N = 1, particles =
          [\<lparr>reb_particle.x = Fin (- 1), y = Fin 0, z = Fin 0, vx = Fin 0, vy = Fin (- 2), vz = Fin 0\<rparr>,
           \<lparr>reb_particle.x = Fin 3, y = Fin 0, z = Fin 0, vx = Fin 0, vy = Fin 0, vz = Fin 4\<rparr>]\<rparr>"
  using reb_simulation_irotate_frame
    [of "\<lparr>reb_particle.x = Fin 1, y = Fin 0, z = Fin 0, vx = Fin 0, vy = Fin 2, vz = Fin 0\<rparr>"
        "\<lparr>ix = Fin 0, iy = Fin 0, iz = Fin 1, r = Fin 0\<rparr>"
        "\<lparr>N = 1, particles =
          [\<lparr>reb_particle.x = Fin 1, y = Fin 0, z = Fin 0, vx = Fin 0, vy = Fin 2, vz = Fin 0\<rparr>,
           \<lparr>reb_particle.x = Fin 3, y = Fin 0, z = Fin 0, vx = Fin 0, vy = Fin 0, vz = Fin 4\<rparr>]\<rparr>"]
  by (simp add: reb_particle_irotate_def reb_vec3d_irotate_def reb_rotation_imag_def
        reb_vec3d_mul_def reb_vec3d_add_def reb_vec3d_cross_def minus_dbl_def Let_def)

section \<open>Normalised vectors, in exact arithmetic\<close>

lemma unit_vec_cases:
  assumes "unit_vec v"
  obtains a b c where "v = \<lparr>x = Fin a, y = Fin b, z = Fin c\<rparr>"
    and "a * a + b * b + c * c = 1"
proof -
  from assms have e: "x v * x v + y v * y v + z v * z v = Fin 1"
    by (simp add: unit_vec_def reb_vec3d_length_squared_def reb_vec3d_dot_def)
  from plus_Fin_D[OF e] have e2: "is_fin (x v * x v + y v * y v)"
    and f2: "is_fin (z v * z v)" by simp_all
  from e2 obtain c2 where g2: "x v * x v + y v * y v = Fin c2"
    by (auto simp: is_fin_iff)
  from plus_Fin_D[OF g2] have f0: "is_fin (x v * x v)" and f1: "is_fin (y v * y v)"
    by simp_all
  from f0 f1 f2 have "fin_vec v"
    by (auto simp: fin_vec_def is_fin_iff dest: times_Fin_D)
  then obtain a b c where v: "v = \<lparr>x = Fin a, y = Fin b, z = Fin c\<rparr>"
    by (rule fin_vec_cases)
  moreover have "a * a + b * b + c * c = 1"
    using e by (simp add: v)
  ultimately show ?thesis by (rule that)
qed

lemma normalize_Fin:
  assumes "a * a + b * b + c * c \<noteq> 0"
  shows "reb_vec3d_normalize \<lparr>x = Fin a, y = Fin b, z = Fin c\<rparr> =
         \<lparr>x = Fin (inverse (sqrt (a * a + b * b + c * c)) * a),
          y = Fin (inverse (sqrt (a * a + b * b + c * c)) * b),
          z = Fin (inverse (sqrt (a * a + b * b + c * c)) * c)\<rparr>"
proof -
  have "0 \<le> a * a + b * b + c * c" by simp
  then show ?thesis using assms
    by (simp add: reb_vec3d_normalize_def reb_vec3d_length_squared_def reb_vec3d_dot_def
        reb_vec3d_mul_def divide_inverse)
qed

lemma inv_sqrt_sq:
  fixes n :: real
  assumes "0 < n"
  shows "inverse (sqrt n) * inverse (sqrt n) * n = 1" "0 < inverse (sqrt n)"
  using assms by (simp_all add: field_simps)

lemma sumsq_pos:
  fixes a b c :: real
  assumes "a * a + b * b + c * c \<noteq> 0"
  shows "0 < a * a + b * b + c * c"
proof -
  have "0 \<le> a * a + b * b + c * c" by simp
  with assms show ?thesis by linarith
qed

lemma normalize_unit_vec:
  assumes "fin_vec v" "\<not> zero_vec v"
  shows "unit_vec (reb_vec3d_normalize v)"
proof -
  obtain a b c where v: "v = \<lparr>x = Fin a, y = Fin b, z = Fin c\<rparr>"
    using assms(1) by (rule fin_vec_cases)
  have nz: "a * a + b * b + c * c \<noteq> 0"
  proof
    assume "a * a + b * b + c * c = 0"
    then have "a = 0 \<and> b = 0 \<and> c = 0"
      by (metis add_nonneg_eq_0_iff zero_le_square mult_eq_0_iff add_nonneg_nonneg)
    with assms(2) show False by (simp add: v zero_vec_def)
  qed
  define s where "s = inverse (sqrt (a * a + b * b + c * c))"
  have s: "s * s * (a * a + b * b + c * c) = 1"
    unfolding s_def by (rule inv_sqrt_sq(1)[OF sumsq_pos[OF nz]])
  have "s * a * (s * a) + s * b * (s * b) + s * c * (s * c) = 1"
    using s by algebra
  then show ?thesis
    unfolding v normalize_Fin[OF nz] s_def[symmetric]
    by (simp add: unit_vec_def reb_vec3d_length_squared_def reb_vec3d_dot_def)
qed

lemma normalize_of_unit:
  assumes "unit_vec v"
  shows "reb_vec3d_normalize v = v"
proof -
  obtain a b c where v: "v = \<lparr>x = Fin a, y = Fin b, z = Fin c\<rparr>"
    and n: "a * a + b * b + c * c = 1"
    using assms by (rule unit_vec_cases)
  show ?thesis
    by (simp add: v reb_vec3d_normalize_def reb_vec3d_length_squared_def reb_vec3d_dot_def
        reb_vec3d_mul_def n)
qed

section \<open>The half-vector rotation, in exact arithmetic\<close>

text \<open>
  \<^verbatim>\<open>reb_rotation_init_from_to_reduced\<close> on two unit vectors that are not opposite:
  the quaternion it returns is a unit quaternion and rotates the first onto the second.
\<close>

lemma reduced_Fin:
  assumes n: "(f1 + t1) * (f1 + t1) + (f2 + t2) * (f2 + t2) + (f3 + t3) * (f3 + t3) \<noteq> 0"
  defines "s \<equiv> inverse (sqrt ((f1 + t1) * (f1 + t1) + (f2 + t2) * (f2 + t2) + (f3 + t3) * (f3 + t3)))"
  shows "reb_rotation_init_from_to_reduced \<lparr>x = Fin f1, y = Fin f2, z = Fin f3\<rparr>
            \<lparr>x = Fin t1, y = Fin t2, z = Fin t3\<rparr> =
         \<lparr>ix = Fin (f2 * (s * (f3 + t3)) - f3 * (s * (f2 + t2))),
          iy = Fin (f3 * (s * (f1 + t1)) - f1 * (s * (f3 + t3))),
          iz = Fin (f1 * (s * (f2 + t2)) - f2 * (s * (f1 + t1))),
          r = Fin (f1 * (s * (f1 + t1)) + f2 * (s * (f2 + t2)) + f3 * (s * (f3 + t3)))\<rparr>"
  unfolding reb_rotation_init_from_to_reduced_def s_def
  by (simp add: normalize_Fin[OF n] reb_vec3d_cross_def reb_vec3d_dot_def Let_def)

lemma rotate_Fin:
  "reb_vec3d_rotate \<lparr>x = Fin v1, y = Fin v2, z = Fin v3\<rparr>
      \<lparr>ix = Fin q1, iy = Fin q2, iz = Fin q3, r = Fin q0\<rparr> =
   \<lparr>x = Fin (v1 + (2 * (q2 * v3 - q3 * v2) * q0 + (q2 * (2 * (q1 * v2 - q2 * v1)) - q3 * (2 * (q3 * v1 - q1 * v3))))),
    y = Fin (v2 + (2 * (q3 * v1 - q1 * v3) * q0 + (q3 * (2 * (q2 * v3 - q3 * v2)) - q1 * (2 * (q1 * v2 - q2 * v1))))),
    z = Fin (v3 + (2 * (q1 * v2 - q2 * v1) * q0 + (q1 * (2 * (q3 * v1 - q1 * v3)) - q2 * (2 * (q2 * v3 - q3 * v2)))))\<rparr>"
  by (simp add: reb_vec3d_rotate_def reb_vec3d_irotate_def reb_rotation_imag_def
        reb_vec3d_mul_def reb_vec3d_add_def reb_vec3d_cross_def Let_def mult.commute)

lemma reduced_maps:
  assumes "unit_vec f" "unit_vec t" "\<not> zero_vec (reb_vec3d_add f t)"
  shows "reb_vec3d_rotate f (reb_rotation_init_from_to_reduced f t) = t"
    and "unit_rot (reb_rotation_init_from_to_reduced f t)"
proof -
  obtain f1 f2 f3 where f: "f = \<lparr>x = Fin f1, y = Fin f2, z = Fin f3\<rparr>"
    and nf: "f1 * f1 + f2 * f2 + f3 * f3 = 1"
    using assms(1) by (rule unit_vec_cases)
  obtain t1 t2 t3 where t: "t = \<lparr>x = Fin t1, y = Fin t2, z = Fin t3\<rparr>"
    and nt: "t1 * t1 + t2 * t2 + t3 * t3 = 1"
    using assms(2) by (rule unit_vec_cases)
  define n where "n = (f1 + t1) * (f1 + t1) + (f2 + t2) * (f2 + t2) + (f3 + t3) * (f3 + t3)"
  have nz: "n \<noteq> 0"
  proof
    assume "n = 0"
    then have "f1 + t1 = 0 \<and> f2 + t2 = 0 \<and> f3 + t3 = 0"
      unfolding n_def
      by (metis add_nonneg_eq_0_iff zero_le_square mult_eq_0_iff add_nonneg_nonneg)
    with assms(3) show False by (simp add: f t zero_vec_def reb_vec3d_add_def)
  qed
  define s where "s = inverse (sqrt n)"
  have s: "s * s * n = 1"
    unfolding s_def by (rule inv_sqrt_sq(1)) (use nz sumsq_pos n_def in blast)
  have red: "reb_rotation_init_from_to_reduced f t =
         \<lparr>ix = Fin (f2 * (s * (f3 + t3)) - f3 * (s * (f2 + t2))),
          iy = Fin (f3 * (s * (f1 + t1)) - f1 * (s * (f3 + t3))),
          iz = Fin (f1 * (s * (f2 + t2)) - f2 * (s * (f1 + t1))),
          r = Fin (f1 * (s * (f1 + t1)) + f2 * (s * (f2 + t2)) + f3 * (s * (f3 + t3)))\<rparr>"
    unfolding f t s_def n_def by (rule reduced_Fin) (use nz n_def in simp)
  show "reb_vec3d_rotate f (reb_rotation_init_from_to_reduced f t) = t"
    unfolding red unfolding f t rotate_Fin
    apply simp
    using nf nt s[unfolded n_def]
    apply (intro conjI)
      apply algebra
     apply algebra
    apply algebra
    done
  show "unit_rot (reb_rotation_init_from_to_reduced f t)"
    unfolding red
    apply (simp add: unit_rot_def reb_rotation_length_squared_def)
    using nf nt s[unfolded n_def]
    apply algebra
    done
qed

lemma sumsq_zero_iff:
  fixes a b c :: real
  shows "a * a + b * b + c * c = 0 \<longleftrightarrow> a = 0 \<and> b = 0 \<and> c = 0"
proof
  assume e: "a * a + b * b + c * c = 0"
  have "0 \<le> a * a" "0 \<le> b * b" "0 \<le> c * c" by simp_all
  with e have "a * a = 0" "b * b = 0" "c * c = 0" by linarith+
  then show "a = 0 \<and> b = 0 \<and> c = 0" by simp
qed simp

text \<open>The half vector of two unit vectors that are not antipodal.\<close>

lemma half_vector:
  assumes "unit_vec f" "unit_vec t" "\<not> zero_vec (reb_vec3d_add f t)"
  defines "h \<equiv> reb_vec3d_normalize \<lparr>x = x f + x t, y = y f + y t, z = z f + z t\<rparr>"
  shows "unit_vec h"
    and "reb_vec3d_dot f t < Fin 0 \<Longrightarrow> \<not> zero_vec (reb_vec3d_add f h)"
    and "reb_vec3d_dot f t < Fin 0 \<Longrightarrow> \<not> zero_vec (reb_vec3d_add h t)"
    and "reb_vec3d_dot f t < Fin 0 \<Longrightarrow>
           reb_rotation_init_from_to_reduced f h = reb_rotation_init_from_to_reduced h t"
proof -
  obtain f1 f2 f3 where f: "f = \<lparr>x = Fin f1, y = Fin f2, z = Fin f3\<rparr>"
    and nf: "f1 * f1 + f2 * f2 + f3 * f3 = 1"
    using assms(1) by (rule unit_vec_cases)
  obtain t1 t2 t3 where t: "t = \<lparr>x = Fin t1, y = Fin t2, z = Fin t3\<rparr>"
    and nt: "t1 * t1 + t2 * t2 + t3 * t3 = 1"
    using assms(2) by (rule unit_vec_cases)
  define n where "n = (f1 + t1) * (f1 + t1) + (f2 + t2) * (f2 + t2) + (f3 + t3) * (f3 + t3)"
  have nz: "n \<noteq> 0"
    using assms(3) unfolding n_def sumsq_zero_iff
    by (simp add: f t zero_vec_def reb_vec3d_add_def)
  have npos: "0 < n" using nz unfolding n_def by (rule sumsq_pos)
  define s where "s = inverse (sqrt n)"
  have s: "s * s * n = 1" and spos: "0 < s"
    unfolding s_def using inv_sqrt_sq[OF npos] by simp_all
  define h1 h2 h3 where "h1 = s * (f1 + t1)" and "h2 = s * (f2 + t2)" and "h3 = s * (f3 + t3)"
  have h: "h = \<lparr>x = Fin h1, y = Fin h2, z = Fin h3\<rparr>"
    unfolding h_def f t h1_def h2_def h3_def s_def n_def
    using normalize_Fin[of "f1 + t1" "f2 + t2" "f3 + t3"] nz[unfolded n_def] by simp
  have nh: "h1 * h1 + h2 * h2 + h3 * h3 = 1"
    unfolding h1_def h2_def h3_def using s[unfolded n_def] by algebra
  show uh: "unit_vec h"
    by (simp add: h unit_vec_def reb_vec3d_length_squared_def reb_vec3d_dot_def nh)
  have n2: "n = 2 + 2 * (f1 * t1 + f2 * t2 + f3 * t3)"
    unfolding n_def using nf nt by algebra
  have fh: "f1 * h1 + f2 * h2 + f3 * h3 = s * (n / 2)"
    unfolding h1_def h2_def h3_def n2 using nf by algebra
  have ht: "h1 * t1 + h2 * t2 + h3 * t3 = s * (n / 2)"
    unfolding h1_def h2_def h3_def n2 using nt by algebra
  have pos: "0 < s * (n / 2)" using spos npos by simp
  define m where "m = 2 + 2 * (s * (n / 2))"
  have mpos: "0 < m" unfolding m_def using pos by simp
  have m1: "(f1 + h1) * (f1 + h1) + (f2 + h2) * (f2 + h2) + (f3 + h3) * (f3 + h3) = m"
    unfolding m_def fh[symmetric] using nf nh by algebra
  have m2: "(h1 + t1) * (h1 + t1) + (h2 + t2) * (h2 + t2) + (h3 + t3) * (h3 + t3) = m"
    unfolding m_def ht[symmetric] using nt nh by algebra
  show a1: "\<not> zero_vec (reb_vec3d_add f h)"
    using m1 mpos by (auto simp: f h zero_vec_def reb_vec3d_add_def)
  show a2: "\<not> zero_vec (reb_vec3d_add h t)"
    using m2 mpos by (auto simp: t h zero_vec_def reb_vec3d_add_def)
  define k where "k = inverse (sqrt m)"
  have r1: "reb_rotation_init_from_to_reduced f h =
         \<lparr>ix = Fin (f2 * (k * (f3 + h3)) - f3 * (k * (f2 + h2))),
          iy = Fin (f3 * (k * (f1 + h1)) - f1 * (k * (f3 + h3))),
          iz = Fin (f1 * (k * (f2 + h2)) - f2 * (k * (f1 + h1))),
          r = Fin (f1 * (k * (f1 + h1)) + f2 * (k * (f2 + h2)) + f3 * (k * (f3 + h3)))\<rparr>"
    unfolding f h k_def m1[symmetric] by (rule reduced_Fin) (use m1 mpos in simp)
  have r2: "reb_rotation_init_from_to_reduced h t =
         \<lparr>ix = Fin (h2 * (k * (h3 + t3)) - h3 * (k * (h2 + t2))),
          iy = Fin (h3 * (k * (h1 + t1)) - h1 * (k * (h3 + t3))),
          iz = Fin (h1 * (k * (h2 + t2)) - h2 * (k * (h1 + t1))),
          r = Fin (h1 * (k * (h1 + t1)) + h2 * (k * (h2 + t2)) + h3 * (k * (h3 + t3)))\<rparr>"
    unfolding t h k_def m2[symmetric] by (rule reduced_Fin) (use m2 mpos in simp)
  have e1: "f2 * (k * (f3 + h3)) - f3 * (k * (f2 + h2)) = h2 * (k * (h3 + t3)) - h3 * (k * (h2 + t2))"
    unfolding h1_def h2_def h3_def by algebra
  have e2: "f3 * (k * (f1 + h1)) - f1 * (k * (f3 + h3)) = h3 * (k * (h1 + t1)) - h1 * (k * (h3 + t3))"
    unfolding h1_def h2_def h3_def by algebra
  have e3: "f1 * (k * (f2 + h2)) - f2 * (k * (f1 + h1)) = h1 * (k * (h2 + t2)) - h2 * (k * (h1 + t1))"
    unfolding h1_def h2_def h3_def by algebra
  have e0: "f1 * (k * (f1 + h1)) + f2 * (k * (f2 + h2)) + f3 * (k * (f3 + h3))
          = h1 * (k * (h1 + t1)) + h2 * (k * (h2 + t2)) + h3 * (k * (h3 + t3))"
    using fh ht nf nh nt by algebra
  show "reb_rotation_init_from_to_reduced f h = reb_rotation_init_from_to_reduced h t"
    unfolding r1 r2 using e0 e1 e2 e3 by simp
qed

section \<open>Rotations are linear and keep lengths and angles, in exact arithmetic\<close>

lemma mul_unit:
  assumes "unit_rot p" "unit_rot q"
  shows "unit_rot (reb_rotation_mul p q)"
proof -
  obtain p1 p2 p3 p0 where p: "p = \<lparr>ix = Fin p1, iy = Fin p2, iz = Fin p3, r = Fin p0\<rparr>"
    and np: "p0 * p0 + p1 * p1 + p2 * p2 + p3 * p3 = 1"
    using assms(1) by (rule unit_rot_cases)
  obtain q1 q2 q3 q0 where q: "q = \<lparr>ix = Fin q1, iy = Fin q2, iz = Fin q3, r = Fin q0\<rparr>"
    and nq: "q0 * q0 + q1 * q1 + q2 * q2 + q3 * q3 = 1"
    using assms(2) by (rule unit_rot_cases)
  show ?thesis
    apply (simp add: p q unit_rot_def reb_rotation_mul_def reb_rotation_length_squared_def)
    using np nq apply algebra
    done
qed

lemma rotate_fin:
  assumes "fin_vec v" "fin_rot q"
  shows "fin_vec (reb_vec3d_rotate v q)"
proof -
  obtain v1 v2 v3 where v: "v = \<lparr>x = Fin v1, y = Fin v2, z = Fin v3\<rparr>"
    using assms(1) by (rule fin_vec_cases)
  obtain q1 q2 q3 q0 where q: "q = \<lparr>ix = Fin q1, iy = Fin q2, iz = Fin q3, r = Fin q0\<rparr>"
    using assms(2) by (rule fin_rot_cases)
  show ?thesis unfolding v q rotate_Fin by (simp add: fin_vec_def)
qed

lemma rotate_dot:
  assumes "unit_rot q" "fin_vec v" "fin_vec w"
  shows "reb_vec3d_dot (reb_vec3d_rotate v q) (reb_vec3d_rotate w q) = reb_vec3d_dot v w"
proof -
  obtain v1 v2 v3 where v: "v = \<lparr>x = Fin v1, y = Fin v2, z = Fin v3\<rparr>"
    using assms(2) by (rule fin_vec_cases)
  obtain w1 w2 w3 where w: "w = \<lparr>x = Fin w1, y = Fin w2, z = Fin w3\<rparr>"
    using assms(3) by (rule fin_vec_cases)
  obtain q1 q2 q3 q0 where q: "q = \<lparr>ix = Fin q1, iy = Fin q2, iz = Fin q3, r = Fin q0\<rparr>"
    and nq: "q0 * q0 + q1 * q1 + q2 * q2 + q3 * q3 = 1"
    using assms(1) by (rule unit_rot_cases)
  show ?thesis
    unfolding v w q rotate_Fin
    apply (simp add: reb_vec3d_dot_def)
    using nq apply algebra
    done
qed

lemma rotate_scale:
  assumes "fin_vec v" "fin_rot q"
  shows "reb_vec3d_rotate (reb_vec3d_mul v (Fin s)) q = reb_vec3d_mul (reb_vec3d_rotate v q) (Fin s)"
proof -
  obtain v1 v2 v3 where v: "v = \<lparr>x = Fin v1, y = Fin v2, z = Fin v3\<rparr>"
    using assms(1) by (rule fin_vec_cases)
  obtain q1 q2 q3 q0 where q: "q = \<lparr>ix = Fin q1, iy = Fin q2, iz = Fin q3, r = Fin q0\<rparr>"
    using assms(2) by (rule fin_rot_cases)
  show ?thesis
    unfolding v q rotate_Fin
    apply (simp add: reb_vec3d_mul_def rotate_Fin)
    apply (intro conjI)
    apply algebra+
    done
qed

lemma zero_vec_iff_length:
  assumes "fin_vec v"
  shows "zero_vec v \<longleftrightarrow> reb_vec3d_length_squared v = Fin 0"
proof -
  obtain v1 v2 v3 where v: "v = \<lparr>x = Fin v1, y = Fin v2, z = Fin v3\<rparr>"
    using assms(1) by (rule fin_vec_cases)
  show ?thesis
    by (simp add: v zero_vec_def reb_vec3d_length_squared_def reb_vec3d_dot_def sumsq_zero_iff)
qed

lemma normalize_rotate:
  assumes "unit_rot q" "fin_vec v" "\<not> zero_vec v"
  shows "reb_vec3d_normalize (reb_vec3d_rotate v q) = reb_vec3d_rotate (reb_vec3d_normalize v) q"
    and "\<not> zero_vec (reb_vec3d_rotate v q)"
proof -
  have fq: "fin_rot q" using assms(1) by (rule unit_rot_fin)
  have fr: "fin_vec (reb_vec3d_rotate v q)" using assms(2) fq by (rule rotate_fin)
  have len: "reb_vec3d_length_squared (reb_vec3d_rotate v q) = reb_vec3d_length_squared v"
    unfolding reb_vec3d_length_squared_def using assms(1,2) by (simp add: rotate_dot)
  show "\<not> zero_vec (reb_vec3d_rotate v q)"
    using assms(3) len zero_vec_iff_length[OF fr] zero_vec_iff_length[OF assms(2)] by simp
  obtain v1 v2 v3 where v: "v = \<lparr>x = Fin v1, y = Fin v2, z = Fin v3\<rparr>"
    using assms(2) by (rule fin_vec_cases)
  have nz: "v1 * v1 + v2 * v2 + v3 * v3 \<noteq> 0"
    using assms(3) by (simp add: v zero_vec_def sumsq_zero_iff)
  have "0 \<le> v1 * v1 + v2 * v2 + v3 * v3" by simp
  then have sc: "Fin 1 / dsqrt (reb_vec3d_length_squared v)
       = Fin (inverse (sqrt (v1 * v1 + v2 * v2 + v3 * v3)))"
    using nz by (simp add: v reb_vec3d_length_squared_def reb_vec3d_dot_def divide_inverse)
  show "reb_vec3d_normalize (reb_vec3d_rotate v q) = reb_vec3d_rotate (reb_vec3d_normalize v) q"
    unfolding reb_vec3d_normalize_def len sc
    using rotate_scale[OF assms(2) fq] by simp
qed

lemma reduced_fixes:
  assumes "unit_vec f" "unit_vec t" "\<not> zero_vec (reb_vec3d_add f t)" "fin_vec w"
    and "reb_vec3d_dot w f = Fin 0" "reb_vec3d_dot w t = Fin 0"
  shows "reb_vec3d_rotate w (reb_rotation_init_from_to_reduced f t) = w"
proof -
  obtain f1 f2 f3 where f: "f = \<lparr>x = Fin f1, y = Fin f2, z = Fin f3\<rparr>"
    and nf: "f1 * f1 + f2 * f2 + f3 * f3 = 1"
    using assms(1) by (rule unit_vec_cases)
  obtain t1 t2 t3 where t: "t = \<lparr>x = Fin t1, y = Fin t2, z = Fin t3\<rparr>"
    and nt: "t1 * t1 + t2 * t2 + t3 * t3 = 1"
    using assms(2) by (rule unit_vec_cases)
  obtain w1 w2 w3 where w: "w = \<lparr>x = Fin w1, y = Fin w2, z = Fin w3\<rparr>"
    using assms(4) by (rule fin_vec_cases)
  have wf: "w1 * f1 + w2 * f2 + w3 * f3 = 0"
    using assms(5) by (simp add: w f reb_vec3d_dot_def)
  have wt: "w1 * t1 + w2 * t2 + w3 * t3 = 0"
    using assms(6) by (simp add: w t reb_vec3d_dot_def)
  have nz: "(f1 + t1) * (f1 + t1) + (f2 + t2) * (f2 + t2) + (f3 + t3) * (f3 + t3) \<noteq> 0"
    using assms(3) unfolding sumsq_zero_iff
    by (simp add: f t zero_vec_def reb_vec3d_add_def)
  show ?thesis
    unfolding f t reduced_Fin[OF nz] unfolding w rotate_Fin
    apply simp
    using wf wt
    apply (intro conjI)
      apply algebra
     apply algebra
    apply algebra
    done
qed

lemma half_vector_orth:
  assumes "unit_vec f" "unit_vec t" "\<not> zero_vec (reb_vec3d_add f t)" "fin_vec w"
    and "reb_vec3d_dot w f = Fin 0" "reb_vec3d_dot w t = Fin 0"
  shows "reb_vec3d_dot w (reb_vec3d_normalize \<lparr>x = x f + x t, y = y f + y t, z = z f + z t\<rparr>)
         = Fin 0"
proof -
  obtain f1 f2 f3 where f: "f = \<lparr>x = Fin f1, y = Fin f2, z = Fin f3\<rparr>"
    and nf: "f1 * f1 + f2 * f2 + f3 * f3 = 1"
    using assms(1) by (rule unit_vec_cases)
  obtain t1 t2 t3 where t: "t = \<lparr>x = Fin t1, y = Fin t2, z = Fin t3\<rparr>"
    and nt: "t1 * t1 + t2 * t2 + t3 * t3 = 1"
    using assms(2) by (rule unit_vec_cases)
  obtain w1 w2 w3 where w: "w = \<lparr>x = Fin w1, y = Fin w2, z = Fin w3\<rparr>"
    using assms(4) by (rule fin_vec_cases)
  have wf: "w1 * f1 + w2 * f2 + w3 * f3 = 0"
    using assms(5) by (simp add: w f reb_vec3d_dot_def)
  have wt: "w1 * t1 + w2 * t2 + w3 * t3 = 0"
    using assms(6) by (simp add: w t reb_vec3d_dot_def)
  have nz: "(f1 + t1) * (f1 + t1) + (f2 + t2) * (f2 + t2) + (f3 + t3) * (f3 + t3) \<noteq> 0"
    using assms(3) unfolding sumsq_zero_iff
    by (simp add: f t zero_vec_def reb_vec3d_add_def)
  have n: "reb_vec3d_normalize \<lparr>x = x f + x t, y = y f + y t, z = z f + z t\<rparr> =
      \<lparr>x = Fin (inverse (sqrt ((f1 + t1) * (f1 + t1) + (f2 + t2) * (f2 + t2) + (f3 + t3) * (f3 + t3))) * (f1 + t1)),
       y = Fin (inverse (sqrt ((f1 + t1) * (f1 + t1) + (f2 + t2) * (f2 + t2) + (f3 + t3) * (f3 + t3))) * (f2 + t2)),
       z = Fin (inverse (sqrt ((f1 + t1) * (f1 + t1) + (f2 + t2) * (f2 + t2) + (f3 + t3) * (f3 + t3))) * (f3 + t3))\<rparr>"
    using normalize_Fin[OF nz] by (simp add: f t)
  show ?thesis
    unfolding n
    apply (simp add: w reb_vec3d_dot_def)
    using wf wt apply algebra
    done
qed

section \<open>\<^verbatim>\<open>reb_rotation_init_from_to\<close> on directions that are not opposite, in exact arithmetic\<close>

lemma from_to_cases:
  assumes "unit_vec f" "unit_vec t" "\<not> zero_vec (reb_vec3d_add f t)"
  defines "h \<equiv> reb_vec3d_normalize \<lparr>x = x f + x t, y = y f + y t, z = z f + z t\<rparr>"
  shows "reb_rotation_init_from_to f t =
          (if Fin 0 \<le> reb_vec3d_dot f t then reb_rotation_init_from_to_reduced f t
           else reb_rotation_mul (reb_rotation_init_from_to_reduced f h)
                  (reb_rotation_init_from_to_reduced h t))"
proof -
  have uh: "unit_vec h" unfolding h_def using assms(1-3) by (rule half_vector(1))
  then have "\<not> deq (reb_vec3d_length_squared h) (Fin 0)"
    by (simp add: unit_vec_def deq_def)
  then show ?thesis
    unfolding reb_rotation_init_from_to_def normalize_of_unit[OF assms(1)]
      normalize_of_unit[OF assms(2)] Let_def h_def[symmetric]
    by simp
qed

lemma unit_dot_neg:
  assumes "unit_vec f" "unit_vec t" "\<not> Fin 0 \<le> reb_vec3d_dot f t"
  shows "reb_vec3d_dot f t < Fin 0"
proof -
  obtain f1 f2 f3 where f: "f = \<lparr>x = Fin f1, y = Fin f2, z = Fin f3\<rparr>"
    using assms(1) by (rule unit_vec_cases)
  obtain t1 t2 t3 where t: "t = \<lparr>x = Fin t1, y = Fin t2, z = Fin t3\<rparr>"
    using assms(2) by (rule unit_vec_cases)
  show ?thesis using assms(3) by (simp add: f t reb_vec3d_dot_def)
qed

lemma unit_vec_fin: "unit_vec v \<Longrightarrow> fin_vec v"
  by (erule unit_vec_cases) (simp add: fin_vec_def)

lemma from_to_unit_maps:
  assumes "unit_vec f" "unit_vec t" "\<not> zero_vec (reb_vec3d_add f t)"
  shows "reb_vec3d_rotate f (reb_rotation_init_from_to f t) = t"
    and "unit_rot (reb_rotation_init_from_to f t)"
    and "fin_vec w \<Longrightarrow> reb_vec3d_dot w f = Fin 0 \<Longrightarrow> reb_vec3d_dot w t = Fin 0
         \<Longrightarrow> reb_vec3d_rotate w (reb_rotation_init_from_to f t) = w"
proof -
  define h where "h = reb_vec3d_normalize \<lparr>x = x f + x t, y = y f + y t, z = z f + z t\<rparr>"
  note ft = from_to_cases[OF assms, folded h_def]
  have uh: "unit_vec h" unfolding h_def using assms by (rule half_vector(1))
  have "reb_vec3d_rotate f (reb_rotation_init_from_to f t) = t
        \<and> unit_rot (reb_rotation_init_from_to f t)
        \<and> (fin_vec w \<longrightarrow> reb_vec3d_dot w f = Fin 0 \<longrightarrow> reb_vec3d_dot w t = Fin 0
         \<longrightarrow> reb_vec3d_rotate w (reb_rotation_init_from_to f t) = w)"
  proof (cases "Fin 0 \<le> reb_vec3d_dot f t")
    case True
    then show ?thesis
      using reduced_maps[OF assms] reduced_fixes[OF assms] by (simp add: ft)
  next
    case False
    then have neg: "reb_vec3d_dot f t < Fin 0" using assms(1,2) by (simp add: unit_dot_neg)
    define A where "A = reb_rotation_init_from_to_reduced f h"
    have fh: "\<not> zero_vec (reb_vec3d_add f h)"
      unfolding h_def using assms neg by (rule half_vector(2))
    have ht: "\<not> zero_vec (reb_vec3d_add h t)"
      unfolding h_def using assms neg by (rule half_vector(3))
    have AB: "reb_rotation_init_from_to_reduced h t = A"
      unfolding A_def h_def using half_vector(4)[OF assms neg] by simp
    have uA: "unit_rot A" unfolding A_def using assms(1) uh fh by (rule reduced_maps(2))
    have fA: "reb_vec3d_rotate f A = h"
      unfolding A_def using assms(1) uh fh by (rule reduced_maps(1))
    have hA: "reb_vec3d_rotate h A = t"
      unfolding AB[symmetric] using uh assms(2) ht by (rule reduced_maps(1))
    have eq: "reb_rotation_init_from_to f t = reb_rotation_mul A A"
      using False by (simp add: ft AB A_def)
    have 1: "reb_vec3d_rotate f (reb_rotation_mul A A) = t"
      using rotate_mul_unit[OF unit_vec_fin[OF assms(1)] uA uA] fA hA by simp
    have 2: "unit_rot (reb_rotation_mul A A)" using uA uA by (rule mul_unit)
    have 3: "reb_vec3d_rotate w (reb_rotation_mul A A) = w"
      if w: "fin_vec w" "reb_vec3d_dot w f = Fin 0" "reb_vec3d_dot w t = Fin 0"
    proof -
      have wh: "reb_vec3d_dot w h = Fin 0"
        unfolding h_def using assms w by (rule half_vector_orth)
      have "reb_vec3d_rotate w A = w"
        unfolding A_def using assms(1) uh fh w(1,2) wh by (rule reduced_fixes)
      then show ?thesis
        using rotate_mul_unit[OF w(1) uA uA] by simp
    qed
    show ?thesis unfolding eq using 1 2 3 by blast
  qed
  then show "reb_vec3d_rotate f (reb_rotation_init_from_to f t) = t"
    and "unit_rot (reb_rotation_init_from_to f t)"
    and "fin_vec w \<Longrightarrow> reb_vec3d_dot w f = Fin 0 \<Longrightarrow> reb_vec3d_dot w t = Fin 0
         \<Longrightarrow> reb_vec3d_rotate w (reb_rotation_init_from_to f t) = w"
    by blast+
qed

lemma from_to_normalizes:
  assumes "fin_vec a" "\<not> zero_vec a" "fin_vec b" "\<not> zero_vec b"
  shows "reb_rotation_init_from_to a b
         = reb_rotation_init_from_to (reb_vec3d_normalize a) (reb_vec3d_normalize b)"
  unfolding reb_rotation_init_from_to_def
  by (simp add: normalize_of_unit normalize_unit_vec assms)

text \<open>
  Without rounding, overflow and underflow, for all finite nonzero \<open>a\<close> and \<open>b\<close>
  whose normalised directions are not exactly opposite,
  \<^verbatim>\<open>reb_rotation_init_from_to(a, b)\<close> is a unit quaternion that rotates the
  normalised \<open>a\<close> onto the normalised \<open>b\<close>, on the small-angle branch and on the
  two-stage branch alike.
\<close>

lemma from_to_maps_normalized:
  assumes "fin_vec a" "\<not> zero_vec a" "fin_vec b" "\<not> zero_vec b"
    and "\<not> zero_vec (reb_vec3d_add (reb_vec3d_normalize a) (reb_vec3d_normalize b))"
  shows "reb_vec3d_rotate (reb_vec3d_normalize a) (reb_rotation_init_from_to a b)
         = reb_vec3d_normalize b"
    and "unit_rot (reb_rotation_init_from_to a b)"
proof -
  have ua: "unit_vec (reb_vec3d_normalize a)" using assms(1,2) by (rule normalize_unit_vec)
  have ub: "unit_vec (reb_vec3d_normalize b)" using assms(3,4) by (rule normalize_unit_vec)
  note e = from_to_normalizes[OF assms(1-4)]
  show "reb_vec3d_rotate (reb_vec3d_normalize a) (reb_rotation_init_from_to a b)
         = reb_vec3d_normalize b"
    unfolding e using ua ub assms(5) by (rule from_to_unit_maps(1))
  show "unit_rot (reb_rotation_init_from_to a b)"
    unfolding e using ua ub assms(5) by (rule from_to_unit_maps(2))
qed

section \<open>The antipodal branch of \<^verbatim>\<open>reb_rotation_init_from_to\<close>\<close>

text \<open>
  The test \<^verbatim>\<open>reb_vec3d_length_squared(half) == 0\<close> is made on the normalised \<open>half\<close>.
  A normalised vector has squared length \<open>1\<close>, or NaN when the vector normalised is
  zero or not finite: the test is false for every vector.
\<close>

lemma normalize_length_not_zero:
  "\<not> deq (reb_vec3d_length_squared (reb_vec3d_normalize h)) (Fin 0)"
proof (cases "fin_vec h")
  case True
  show ?thesis
  proof (cases "zero_vec h")
    case True
    then have "h = \<lparr>x = Fin 0, y = Fin 0, z = Fin 0\<rparr>"
      by (cases h) (simp add: zero_vec_def)
    then show ?thesis
      by (simp add: reb_vec3d_normalize_def reb_vec3d_length_squared_def reb_vec3d_dot_def
          reb_vec3d_mul_def deq_def)
  next
    case False
    with True have "unit_vec (reb_vec3d_normalize h)" by (rule normalize_unit_vec)
    then show ?thesis by (simp add: unit_vec_def deq_def)
  qed
next
  case False
  obtain a b c where h: "h = \<lparr>x = a, y = b, z = c\<rparr>" by (cases h) simp
  from False have nf: "\<not> (is_fin a \<and> is_fin b \<and> is_fin c)" by (simp add: h fin_vec_def)
  show ?thesis
    unfolding h using nf
    by (cases a; cases b; cases c)
       (simp_all add: reb_vec3d_normalize_def reb_vec3d_length_squared_def reb_vec3d_dot_def
          reb_vec3d_mul_def deq_def)
qed

lemma fallback_selects:
  assumes "fin_vec v"
  shows "\<exists>e \<in> {\<lparr>x = Fin 1, y = Fin 0, z = Fin 0\<rparr>, \<lparr>x = Fin 0, y = Fin 1, z = Fin 0\<rparr>,
               \<lparr>x = Fin 0, y = Fin 0, z = Fin 1\<rparr>}.
           reb_rotation_imag (from_to_fallback v) = reb_vec3d_cross v e
           \<and> dfabs (reb_vec3d_dot v e) \<le> dfabs (x v)
           \<and> dfabs (reb_vec3d_dot v e) \<le> dfabs (y v)
           \<and> dfabs (reb_vec3d_dot v e) \<le> dfabs (z v)"
proof -
  obtain a b c where v: "v = \<lparr>x = Fin a, y = Fin b, z = Fin c\<rparr>"
    using assms by (rule fin_vec_cases)
  show ?thesis
    unfolding v
    by (auto simp: from_to_fallback_def reb_vec3d_cross_def Let_def reb_rotation_imag_def
        reb_vec3d_dot_def)
qed

text \<open>
  Claim C10. In the branch that handles antipodal inputs, for every \<open>from\<close> that is
  not the zero vector, the quaternion returned has real part \<open>0\<close> and an imaginary
  part, the cross product of \<open>from\<close> with the selected world axis, that is not the
  zero vector; for a \<open>from\<close> of real numbers the imaginary part is a vector of real
  numbers, and the world axis selected is one along which the component of \<open>from\<close>
  is smallest in absolute value.
\<close>

theorem from_to_fallback_axis_nonzero:
  "\<not> zero_vec v \<longrightarrow>
     r (from_to_fallback v) = Fin 0
     \<and> \<not> zero_vec (reb_rotation_imag (from_to_fallback v))
     \<and> (fin_vec v \<longrightarrow>
          fin_vec (reb_rotation_imag (from_to_fallback v))
          \<and> (\<exists>e \<in> {\<lparr>x = Fin 1, y = Fin 0, z = Fin 0\<rparr>, \<lparr>x = Fin 0, y = Fin 1, z = Fin 0\<rparr>,
                     \<lparr>x = Fin 0, y = Fin 0, z = Fin 1\<rparr>}.
                 reb_rotation_imag (from_to_fallback v) = reb_vec3d_cross v e
                 \<and> dfabs (reb_vec3d_dot v e) \<le> dfabs (x v)
                 \<and> dfabs (reb_vec3d_dot v e) \<le> dfabs (y v)
                 \<and> dfabs (reb_vec3d_dot v e) \<le> dfabs (z v)))"
proof -
  have "\<not> zero_vec v \<longrightarrow>
     r (from_to_fallback v) = Fin 0
     \<and> \<not> zero_vec (reb_rotation_imag (from_to_fallback v))
     \<and> (fin_vec v \<longrightarrow> fin_vec (reb_rotation_imag (from_to_fallback v)))"
  proof (cases v)
    case (fields a b c)
    show ?thesis
      unfolding fields
      by (cases a; cases b; cases c)
         (auto simp: from_to_fallback_def reb_vec3d_cross_def Let_def minus_dbl_def
            zero_vec_def fin_vec_def reb_rotation_imag_def)
  qed
  then show ?thesis using fallback_selects[of v] by blast
qed

theorem from_to_fallback_axis_nonzero_witness:
  "\<not> zero_vec \<lparr>x = Fin (3 / 5), y = Fin 0, z = Fin (- 4 / 5)\<rparr>
   \<and> fin_vec \<lparr>x = Fin (3 / 5), y = Fin 0, z = Fin (- 4 / 5)\<rparr>
   \<and> r (from_to_fallback \<lparr>x = Fin (3 / 5), y = Fin 0, z = Fin (- 4 / 5)\<rparr>) = Fin 0
   \<and> \<not> zero_vec (reb_rotation_imag
         (from_to_fallback \<lparr>x = Fin (3 / 5), y = Fin 0, z = Fin (- 4 / 5)\<rparr>))
   \<and> fin_vec (reb_rotation_imag
         (from_to_fallback \<lparr>x = Fin (3 / 5), y = Fin 0, z = Fin (- 4 / 5)\<rparr>))
   \<and> from_to_fallback \<lparr>x = Fin (3 / 5), y = Fin 0, z = Fin (- 4 / 5)\<rparr>
       = \<lparr>ix = Fin (4 / 5), iy = Fin 0, iz = Fin (3 / 5), r = Fin 0\<rparr>"
proof -
  have h1: "\<not> zero_vec \<lparr>x = Fin (3 / 5), y = Fin 0, z = Fin (- 4 / 5)\<rparr>"
    and h2: "fin_vec \<lparr>x = Fin (3 / 5), y = Fin 0, z = Fin (- 4 / 5)\<rparr>"
    by (simp_all add: zero_vec_def fin_vec_def)
  have v: "from_to_fallback \<lparr>x = Fin (3 / 5), y = Fin 0, z = Fin (- 4 / 5)\<rparr>
       = \<lparr>ix = Fin (4 / 5), iy = Fin 0, iz = Fin (3 / 5), r = Fin 0\<rparr>"
    by (simp add: from_to_fallback_def reb_vec3d_cross_def Let_def)
  show ?thesis
    using from_to_fallback_axis_nonzero [of "\<lparr>x = Fin (3 / 5), y = Fin 0, z = Fin (- 4 / 5)\<rparr>"]
      h1 h2 v
    by blast
qed

text \<open>
  Claim C1, at the inputs \<open>(1,0,0)\<close> and \<open>(-1,0,0)\<close>. Both are already normalised
  and their dot product is \<open>-1\<close>, so the second part of the function runs:
  \<open>half\<close> is \<open>(0,0,0)\<close> and is normalised before its length is tested. Normalising
  multiplies each zero by \<^verbatim>\<open>1./sqrt(0.)\<close>, which is \<^verbatim>\<open>inf\<close>, so \<open>half\<close> becomes
  \<open>(NaN, NaN, NaN)\<close>; its squared length is NaN and \<^verbatim>\<open>NaN == 0\<close> is false. The
  antipodal branch is skipped, and the product of the two reduced rotations, built
  from the NaN vector, has four NaN components: the real part is not \<open>0\<close>, and the
  rotated \<open>(1,0,0)\<close> is \<open>(NaN, NaN, NaN)\<close>, not \<open>(-1,0,0)\<close>. The fourth conjunct
  is what the antipodal branch would have returned, and the last one says that the
  test guarding that branch is false whatever the vector \<open>h\<close> that is normalised.
\<close>

theorem from_to_antipodal_is_nan:
  "reb_rotation_init_from_to \<lparr>x = Fin 1, y = Fin 0, z = Fin 0\<rparr>
       \<lparr>x = Fin (- 1), y = Fin 0, z = Fin 0\<rparr>
     = \<lparr>ix = NaN, iy = NaN, iz = NaN, r = NaN\<rparr>
   \<and> r (reb_rotation_init_from_to \<lparr>x = Fin 1, y = Fin 0, z = Fin 0\<rparr>
          \<lparr>x = Fin (- 1), y = Fin 0, z = Fin 0\<rparr>) \<noteq> Fin 0
   \<and> reb_vec3d_rotate \<lparr>x = Fin 1, y = Fin 0, z = Fin 0\<rparr>
        (reb_rotation_init_from_to \<lparr>x = Fin 1, y = Fin 0, z = Fin 0\<rparr>
           \<lparr>x = Fin (- 1), y = Fin 0, z = Fin 0\<rparr>)
     = \<lparr>x = NaN, y = NaN, z = NaN\<rparr>
   \<and> from_to_fallback \<lparr>x = Fin 1, y = Fin 0, z = Fin 0\<rparr>
     = \<lparr>ix = Fin 0, iy = Fin 0, iz = Fin 1, r = Fin 0\<rparr>
   \<and> \<not> deq (reb_vec3d_length_squared (reb_vec3d_normalize h)) (Fin 0)"
  using normalize_length_not_zero[of h]
  by (simp add: reb_rotation_init_from_to_def reb_rotation_init_from_to_reduced_def
        reb_vec3d_normalize_def reb_vec3d_length_squared_def reb_vec3d_dot_def
        reb_vec3d_mul_def reb_vec3d_cross_def reb_rotation_mul_def deq_def Let_def
        reb_vec3d_rotate_def reb_vec3d_irotate_def reb_rotation_imag_def reb_vec3d_add_def
        from_to_fallback_def minus_dbl_def)

text \<open>
  Claim C3, at the nonzero inputs \<open>a = (0,0,1)\<close> and \<open>b = (0,0,-1)\<close>. Their
  directions are exactly opposite, so the sum of the normalised vectors is the zero
  vector, its normalisation is \<open>(NaN, NaN, NaN)\<close>, the test for the antipodal branch
  is false, and the quaternion returned has four NaN components. The normalised
  \<open>a\<close>, rotated by it, is \<open>(NaN, NaN, NaN)\<close>, while the normalised \<open>b\<close> is
  \<open>(0,0,-1)\<close>.
\<close>

theorem from_to_opposite_directions_nan:
  "fin_vec \<lparr>x = Fin 0, y = Fin 0, z = Fin 1\<rparr>
   \<and> \<not> zero_vec \<lparr>x = Fin 0, y = Fin 0, z = Fin 1\<rparr>
   \<and> fin_vec \<lparr>x = Fin 0, y = Fin 0, z = Fin (- 1)\<rparr>
   \<and> \<not> zero_vec \<lparr>x = Fin 0, y = Fin 0, z = Fin (- 1)\<rparr>
   \<and> reb_rotation_init_from_to \<lparr>x = Fin 0, y = Fin 0, z = Fin 1\<rparr>
         \<lparr>x = Fin 0, y = Fin 0, z = Fin (- 1)\<rparr>
       = \<lparr>ix = NaN, iy = NaN, iz = NaN, r = NaN\<rparr>
   \<and> reb_vec3d_rotate (reb_vec3d_normalize \<lparr>x = Fin 0, y = Fin 0, z = Fin 1\<rparr>)
         (reb_rotation_init_from_to \<lparr>x = Fin 0, y = Fin 0, z = Fin 1\<rparr>
            \<lparr>x = Fin 0, y = Fin 0, z = Fin (- 1)\<rparr>)
       = \<lparr>x = NaN, y = NaN, z = NaN\<rparr>
   \<and> reb_vec3d_normalize \<lparr>x = Fin 0, y = Fin 0, z = Fin (- 1)\<rparr>
       = \<lparr>x = Fin 0, y = Fin 0, z = Fin (- 1)\<rparr>"
  by (simp add: reb_rotation_init_from_to_def reb_rotation_init_from_to_reduced_def
        reb_vec3d_normalize_def reb_vec3d_length_squared_def reb_vec3d_dot_def
        reb_vec3d_mul_def reb_vec3d_cross_def reb_rotation_mul_def deq_def Let_def
        reb_vec3d_rotate_def reb_vec3d_irotate_def reb_rotation_imag_def reb_vec3d_add_def
        fin_vec_def zero_vec_def minus_dbl_def)

text \<open>
  Claim C8, at the inputs \<open>from = (0,1,0)\<close> and \<open>to = (0,-1,0)\<close> of
  \<^verbatim>\<open>reb_rotation_init_from_to\<close>. The identity quaternion has squared norm \<open>1\<close>. The
  two inputs are antipodal, yet the function does not leave through the antipodal
  branch, which would have returned \<open>(ix, iy, iz, r) = (0, 0, -1, 0)\<close>: the
  normalised \<open>half\<close> is \<open>(NaN, NaN, NaN)\<close>, the test guarding the branch is false, and
  the function leaves through the two-stage branch, one of the branches that are to
  return unit quaternions, with four NaN components. The squared norm of the result is NaN, not
  \<open>1\<close>, and its real part is not \<open>0\<close>.
\<close>

theorem from_to_antipodal_not_unit:
  "unit_rot reb_rotation_identity
   \<and> reb_vec3d_normalize \<lparr>x = Fin 0 + Fin 0, y = Fin 1 + Fin (- 1), z = Fin 0 + Fin 0\<rparr>
       = \<lparr>x = NaN, y = NaN, z = NaN\<rparr>
   \<and> \<not> deq (reb_vec3d_length_squared \<lparr>x = NaN, y = NaN, z = NaN\<rparr>) (Fin 0)
   \<and> reb_rotation_init_from_to \<lparr>x = Fin 0, y = Fin 1, z = Fin 0\<rparr>
         \<lparr>x = Fin 0, y = Fin (- 1), z = Fin 0\<rparr>
       = \<lparr>ix = NaN, iy = NaN, iz = NaN, r = NaN\<rparr>
   \<and> reb_rotation_length_squared
         (reb_rotation_init_from_to \<lparr>x = Fin 0, y = Fin 1, z = Fin 0\<rparr>
            \<lparr>x = Fin 0, y = Fin (- 1), z = Fin 0\<rparr>) = NaN
   \<and> \<not> unit_rot (reb_rotation_init_from_to \<lparr>x = Fin 0, y = Fin 1, z = Fin 0\<rparr>
                    \<lparr>x = Fin 0, y = Fin (- 1), z = Fin 0\<rparr>)
   \<and> r (reb_rotation_init_from_to \<lparr>x = Fin 0, y = Fin 1, z = Fin 0\<rparr>
          \<lparr>x = Fin 0, y = Fin (- 1), z = Fin 0\<rparr>) \<noteq> Fin 0
   \<and> from_to_fallback \<lparr>x = Fin 0, y = Fin 1, z = Fin 0\<rparr>
       = \<lparr>ix = Fin 0, iy = Fin 0, iz = Fin (- 1), r = Fin 0\<rparr>"
  by (simp add: reb_rotation_init_from_to_def reb_rotation_init_from_to_reduced_def
        reb_vec3d_normalize_def reb_vec3d_length_squared_def reb_vec3d_dot_def
        reb_vec3d_mul_def reb_vec3d_cross_def reb_rotation_mul_def deq_def Let_def
        reb_rotation_length_squared_def reb_rotation_identity_def unit_rot_def
        from_to_fallback_def minus_dbl_def)

section \<open>\<^verbatim>\<open>reb_rotation_init_to_new_axes\<close>\<close>




text \<open>
  In exact arithmetic: for finite nonzero orthogonal \<open>newz\<close> and \<open>newx\<close>, with the
  normalised \<open>newz\<close> not opposite to the world z-axis and the normalised rotated
  \<open>newx\<close> not opposite to the world x-axis, the rotation built carries the normalised
  \<open>newz\<close> onto the world z-axis and the normalised \<open>newx\<close> onto the world x-axis.
\<close>

lemma to_new_axes_maps:
  assumes "fin_vec newz" "\<not> zero_vec newz" "fin_vec newx" "\<not> zero_vec newx"
    and orth: "reb_vec3d_dot newz newx = Fin 0"
    and na1: "\<not> zero_vec (reb_vec3d_add (reb_vec3d_normalize newz) \<lparr>x = Fin 0, y = Fin 0, z = Fin 1\<rparr>)"
    and na2: "\<not> zero_vec (reb_vec3d_add
                (reb_vec3d_normalize (reb_vec3d_rotate newx
                   (reb_rotation_init_from_to newz \<lparr>x = Fin 0, y = Fin 0, z = Fin 1\<rparr>)))
                \<lparr>x = Fin 1, y = Fin 0, z = Fin 0\<rparr>)"
  shows "reb_vec3d_rotate (reb_vec3d_normalize newz) (reb_rotation_init_to_new_axes newz newx)
           = \<lparr>x = Fin 0, y = Fin 0, z = Fin 1\<rparr>"
    and "reb_vec3d_rotate (reb_vec3d_normalize newx) (reb_rotation_init_to_new_axes newz newx)
           = \<lparr>x = Fin 1, y = Fin 0, z = Fin 0\<rparr>"
proof -
  define Z where "Z = \<lparr>x = Fin 0, y = Fin 0, z = Fin 1\<rparr>"
  define X where "X = \<lparr>x = Fin 1, y = Fin 0, z = Fin 0\<rparr>"
  define nz where "nz = reb_vec3d_normalize newz"
  define nx where "nx = reb_vec3d_normalize newx"
  define q1 where "q1 = reb_rotation_init_from_to newz Z"
  define newx' where "newx' = reb_vec3d_rotate newx q1"
  define q2 where "q2 = reb_rotation_init_from_to newx' X"
  have T: "reb_rotation_init_to_new_axes newz newx = reb_rotation_mul q2 q1"
    by (simp add: reb_rotation_init_to_new_axes_def Let_def q2_def newx'_def q1_def Z_def X_def
        reb_vec3d_rotate_def)
  have uZ: "unit_vec Z" and uX: "unit_vec X" and fZ: "fin_vec Z" and fX: "fin_vec X"
    and nZ: "\<not> zero_vec Z" and nX: "\<not> zero_vec X"
    by (simp_all add: Z_def X_def unit_vec_def fin_vec_def zero_vec_def
        reb_vec3d_length_squared_def reb_vec3d_dot_def)
  have ZX: "reb_vec3d_dot Z X = Fin 0" by (simp add: Z_def X_def reb_vec3d_dot_def)
  have unz: "unit_vec nz" unfolding nz_def using assms(1,2) by (rule normalize_unit_vec)
  have unx: "unit_vec nx" unfolding nx_def using assms(3,4) by (rule normalize_unit_vec)
  have q1': "q1 = reb_rotation_init_from_to nz Z"
    unfolding q1_def nz_def
    using from_to_normalizes[OF assms(1,2) fZ nZ] normalize_of_unit[OF uZ] by simp
  have na1': "\<not> zero_vec (reb_vec3d_add nz Z)" using na1 by (simp add: nz_def Z_def)
  have q1_maps: "reb_vec3d_rotate nz q1 = Z" unfolding q1' using unz uZ na1' by (rule from_to_unit_maps(1))
  have uq1: "unit_rot q1" unfolding q1' using unz uZ na1' by (rule from_to_unit_maps(2))
  have fq1: "fin_rot q1" using uq1 by (rule unit_rot_fin)
  have fnx': "fin_vec newx'" unfolding newx'_def using assms(3) fq1 by (rule rotate_fin)
  have nnx': "\<not> zero_vec newx'" unfolding newx'_def using uq1 assms(3,4) by (rule normalize_rotate(2))
  define n' where "n' = reb_vec3d_normalize newx'"
  have n'_eq: "n' = reb_vec3d_rotate nx q1"
    unfolding n'_def newx'_def nx_def using uq1 assms(3,4) by (rule normalize_rotate(1))
  have un': "unit_vec n'" unfolding n'_def using fnx' nnx' by (rule normalize_unit_vec)
  have q2': "q2 = reb_rotation_init_from_to n' X"
    unfolding q2_def n'_def
    using from_to_normalizes[OF fnx' nnx' fX nX] normalize_of_unit[OF uX] by simp
  have na2': "\<not> zero_vec (reb_vec3d_add n' X)"
    using na2 by (simp add: n'_def newx'_def q1_def Z_def X_def)
  have q2_maps: "reb_vec3d_rotate n' q2 = X" unfolding q2' using un' uX na2' by (rule from_to_unit_maps(1))
  have uq2: "unit_rot q2" unfolding q2' using un' uX na2' by (rule from_to_unit_maps(2))
  have dot0: "reb_vec3d_dot nz nx = Fin 0"
  proof -
    obtain a1 a2 a3 where a: "newz = \<lparr>x = Fin a1, y = Fin a2, z = Fin a3\<rparr>"
      using assms(1) by (rule fin_vec_cases)
    obtain b1 b2 b3 where b: "newx = \<lparr>x = Fin b1, y = Fin b2, z = Fin b3\<rparr>"
      using assms(3) by (rule fin_vec_cases)
    have za: "a1 * a1 + a2 * a2 + a3 * a3 \<noteq> 0"
      using assms(2) by (simp add: a zero_vec_def sumsq_zero_iff)
    have zb: "b1 * b1 + b2 * b2 + b3 * b3 \<noteq> 0"
      using assms(4) by (simp add: b zero_vec_def sumsq_zero_iff)
    have ab: "a1 * b1 + a2 * b2 + a3 * b3 = 0"
      using orth by (simp add: a b reb_vec3d_dot_def)
    show ?thesis
      unfolding nz_def nx_def a b normalize_Fin[OF za] normalize_Fin[OF zb]
      apply (simp add: reb_vec3d_dot_def)
      using ab apply algebra
      done
  qed
  have "reb_vec3d_dot Z n' = reb_vec3d_dot (reb_vec3d_rotate nz q1) (reb_vec3d_rotate nx q1)"
    by (simp add: q1_maps n'_eq)
  also have "\<dots> = reb_vec3d_dot nz nx"
    using uq1 unit_vec_fin[OF unz] unit_vec_fin[OF unx] by (rule rotate_dot)
  finally have Zn': "reb_vec3d_dot Z n' = Fin 0" using dot0 by simp
  have q2_fix: "reb_vec3d_rotate Z q2 = Z"
    unfolding q2' using un' uX na2' fZ Zn' ZX by (rule from_to_unit_maps(3))
  have "reb_vec3d_rotate nz (reb_rotation_mul q2 q1) = Z"
    using rotate_mul_unit[OF unit_vec_fin[OF unz] uq2 uq1] q1_maps q2_fix by simp
  then show "reb_vec3d_rotate (reb_vec3d_normalize newz) (reb_rotation_init_to_new_axes newz newx)
           = \<lparr>x = Fin 0, y = Fin 0, z = Fin 1\<rparr>"
    by (simp add: T nz_def Z_def)
  have "reb_vec3d_rotate nx (reb_rotation_mul q2 q1) = X"
    using rotate_mul_unit[OF unit_vec_fin[OF unx] uq2 uq1] n'_eq q2_maps by simp
  then show "reb_vec3d_rotate (reb_vec3d_normalize newx) (reb_rotation_init_to_new_axes newz newx)
           = \<lparr>x = Fin 1, y = Fin 0, z = Fin 0\<rparr>"
    by (simp add: T nx_def X_def)
qed



section \<open>Unit quaternions from the constructors, in exact arithmetic\<close>

text \<open>
  Without rounding, overflow and underflow: \<^verbatim>\<open>reb_rotation_init_angle_axis\<close> on a
  finite angle and a finite nonzero axis, and \<^verbatim>\<open>reb_rotation_init_orbital\<close> on finite
  angles, return unit quaternions; the antipodal branch of
  \<^verbatim>\<open>reb_rotation_init_from_to\<close> on a unit vector returns real part \<open>0\<close> and a
  quaternion that has norm \<open>1\<close> only when a component of the vector is zero.
\<close>

lemma angle_axis_Fin:
  assumes nz: "a1 * a1 + a2 * a2 + a3 * a3 \<noteq> 0"
  shows "reb_rotation_init_angle_axis (Fin th) \<lparr>x = Fin a1, y = Fin a2, z = Fin a3\<rparr> =
     \<lparr>ix = Fin (sin (th / 2) * (inverse (sqrt (a1 * a1 + a2 * a2 + a3 * a3)) * a1)),
      iy = Fin (sin (th / 2) * (inverse (sqrt (a1 * a1 + a2 * a2 + a3 * a3)) * a2)),
      iz = Fin (sin (th / 2) * (inverse (sqrt (a1 * a1 + a2 * a2 + a3 * a3)) * a3)),
      r = Fin (cos (th / 2))\<rparr>"
  unfolding reb_rotation_init_angle_axis_def normalize_Fin[OF nz] Let_def
  by (simp add: reb_vec3d_mul_def)

lemma angle_axis_unit:
  assumes "is_fin angle" "fin_vec axis" "\<not> zero_vec axis"
  shows "unit_rot (reb_rotation_init_angle_axis angle axis)"
proof -
  obtain th where th: "angle = Fin th" using assms(1) by (auto simp: is_fin_iff)
  obtain a1 a2 a3 where a: "axis = \<lparr>x = Fin a1, y = Fin a2, z = Fin a3\<rparr>"
    using assms(2) by (rule fin_vec_cases)
  have nz: "a1 * a1 + a2 * a2 + a3 * a3 \<noteq> 0"
    using assms(3) by (simp add: a zero_vec_def sumsq_zero_iff)
  define s where "s = inverse (sqrt (a1 * a1 + a2 * a2 + a3 * a3))"
  have s: "s * s * (a1 * a1 + a2 * a2 + a3 * a3) = 1"
    unfolding s_def by (rule inv_sqrt_sq(1)[OF sumsq_pos[OF nz]])
  have cs: "cos (th / 2) * cos (th / 2) + sin (th / 2) * sin (th / 2) = 1"
    using sin_cos_squared_add3[of "th / 2"] by simp
  have "cos (th / 2) * cos (th / 2)
        + sin (th / 2) * (s * a1) * (sin (th / 2) * (s * a1))
        + sin (th / 2) * (s * a2) * (sin (th / 2) * (s * a2))
        + sin (th / 2) * (s * a3) * (sin (th / 2) * (s * a3)) = 1"
    using s cs by algebra
  then show ?thesis
    unfolding th a angle_axis_Fin[OF nz] s_def[symmetric]
    by (simp add: unit_rot_def reb_rotation_length_squared_def)
qed

lemma init_orbital_unit:
  assumes "is_fin Omega" "is_fin inc" "is_fin omega"
  shows "unit_rot (reb_rotation_init_orbital Omega inc omega)"
proof -
  have fz: "fin_vec \<lparr>x = Fin 0, y = Fin 0, z = Fin 1\<rparr>"
    and nz: "\<not> zero_vec \<lparr>x = Fin 0, y = Fin 0, z = Fin 1\<rparr>"
    and fx: "fin_vec \<lparr>x = Fin 1, y = Fin 0, z = Fin 0\<rparr>"
    and nx: "\<not> zero_vec \<lparr>x = Fin 1, y = Fin 0, z = Fin 0\<rparr>"
    by (simp_all add: fin_vec_def zero_vec_def)
  show ?thesis
    unfolding reb_rotation_init_orbital_def Let_def
    by (intro mul_unit angle_axis_unit assms fz nz fx nx)
qed

lemma fallback_norm:
  assumes "unit_vec f"
  shows "r (from_to_fallback f) = Fin 0"
    and "unit_rot (from_to_fallback f) \<longleftrightarrow> (x f = Fin 0 \<or> y f = Fin 0 \<or> z f = Fin 0)"
proof -
  obtain f1 f2 f3 where f: "f = \<lparr>x = Fin f1, y = Fin f2, z = Fin f3\<rparr>"
    and nf: "f1 * f1 + f2 * f2 + f3 * f3 = 1"
    using assms by (rule unit_vec_cases)
  show "r (from_to_fallback f) = Fin 0"
    by (simp add: f from_to_fallback_def Let_def)
  have z1: "f1 * f1 = 0 \<longleftrightarrow> f1 = 0" and z2: "f2 * f2 = 0 \<longleftrightarrow> f2 = 0"
    and z3: "f3 * f3 = 0 \<longleftrightarrow> f3 = 0" by simp_all
  have "f3 * f3 + f2 * f2 = 1 \<longleftrightarrow> f1 * f1 = 0" using nf by linarith
  then have e1: "f3 * f3 + f2 * f2 = 1 \<longleftrightarrow> f1 = 0" using z1 by simp
  have "f3 * f3 + f1 * f1 = 1 \<longleftrightarrow> f2 * f2 = 0" using nf by linarith
  then have e2: "f3 * f3 + f1 * f1 = 1 \<longleftrightarrow> f2 = 0" using z2 by simp
  have "f2 * f2 + f1 * f1 = 1 \<longleftrightarrow> f3 * f3 = 0" using nf by linarith
  then have e3: "f2 * f2 + f1 * f1 = 1 \<longleftrightarrow> f3 = 0" using z3 by simp
  show "unit_rot (from_to_fallback f) \<longleftrightarrow> (x f = Fin 0 \<or> y f = Fin 0 \<or> z f = Fin 0)"
    apply (simp add: f from_to_fallback_def Let_def reb_vec3d_cross_def unit_rot_def
        reb_rotation_length_squared_def e1 e2 e3)
    apply (auto simp: e1 e2 e3)
    done
qed

section \<open>The range of the orbital angles\<close>

lemma atan2_real_range: "- pi \<le> atan2_real b a \<and> atan2_real b a \<le> pi"
proof -
  have lb: "- (pi / 2) < arctan (b / a)" and ub: "arctan (b / a) < pi / 2"
    using arctan_bounded[of "b / a"] by simp_all
  have p: "0 < pi" by simp
  consider "0 < a" | "a < 0" "0 \<le> b" | "a < 0" "b < 0" | "a = 0" by linarith
  then show ?thesis
  proof cases
    case 1
    then have "atan2_real b a = arctan (b / a)" by (simp add: atan2_real_def)
    then show ?thesis using lb ub p by linarith
  next
    case 2
    then have "b / a \<le> 0" by (simp add: divide_nonneg_neg)
    then have "arctan (b / a) \<le> 0" by (simp add: arctan_le_zero_iff)
    moreover have "atan2_real b a = arctan (b / a) + pi" using 2 by (simp add: atan2_real_def)
    ultimately show ?thesis using lb p by linarith
  next
    case 3
    then have "0 < b / a" by (simp add: divide_neg_neg)
    then have "0 < arctan (b / a)" by (simp add: zero_less_arctan_iff)
    moreover have "atan2_real b a = arctan (b / a) - pi" using 3 by (simp add: atan2_real_def)
    ultimately show ?thesis using ub p by linarith
  next
    case 4
    then have "atan2_real b a = pi / 2 \<or> atan2_real b a = - (pi / 2) \<or> atan2_real b a = 0"
      by (simp add: atan2_real_def)
    then show ?thesis using p by linarith
  qed
qed

lemma datan2_bounds:
  assumes "b \<noteq> NaN" "a \<noteq> NaN"
  shows "is_fin (datan2 b a) \<and> Fin (- pi) \<le> datan2 b a \<and> datan2 b a \<le> Fin pi"
proof -
  have q: "- pi \<le> pi" "- pi \<le> 0"
    "- pi \<le> pi / 2" "pi / 2 \<le> pi" "- pi \<le> - (pi / 2)" "- (pi / 2) \<le> pi"
    "- pi \<le> pi / 4" "pi / 4 \<le> pi" "- pi \<le> - (pi / 4)" "- (pi / 4) \<le> pi"
    "- pi \<le> 3 * pi / 4" "3 * pi / 4 \<le> pi" "- pi \<le> - (3 * pi / 4)" "- (3 * pi / 4) \<le> pi"
    using pi_gt_zero by linarith+
  show ?thesis
  proof (cases b)
    case (Fin b')
    then show ?thesis using assms(2) q atan2_real_range[of b'] by (cases a) simp_all
  next
    case PInf
    then show ?thesis using assms(2) q by (cases a) simp_all
  next
    case NInf
    then show ?thesis using assms(2) q by (cases a) simp_all
  next
    case NaN
    then show ?thesis using assms(1) by simp
  qed
qed

lemma datan2_range:
  assumes "b \<noteq> NaN" "a \<noteq> NaN"
  shows "\<exists>t. datan2 b a = Fin t \<and> - pi \<le> t \<and> t \<le> pi"
proof -
  from datan2_bounds[OF assms] obtain t where t: "datan2 b a = Fin t"
    by (auto simp: is_fin_iff)
  with datan2_bounds[OF assms] have "- pi \<le> t \<and> t \<le> pi" by simp
  with t show ?thesis by blast
qed

lemma normalized_angle:
  assumes "- (2 * pi) \<le> t" "t \<le> 2 * pi"
  shows "Fin 0 \<le> (if Fin t < Fin 0 then Fin t + M_PI * Fin 2 else Fin t)
       \<and> (if Fin t < Fin 0 then Fin t + M_PI * Fin 2 else Fin t) \<le> Fin (2 * pi)"
  using assms by (simp add: M_PI_def)

lemma to_orbital_range:
  assumes "ix q \<noteq> NaN" "iy q \<noteq> NaN" "iz q \<noteq> NaN" "r q \<noteq> NaN"
  shows "Fin 0 \<le> fst (reb_rotation_to_orbital q) \<and> fst (reb_rotation_to_orbital q) \<le> Fin (2 * pi)
     \<and> Fin 0 \<le> snd (snd (reb_rotation_to_orbital q))
     \<and> snd (snd (reb_rotation_to_orbital q)) \<le> Fin (2 * pi)"
proof -
  obtain hs where hs: "datan2 (iz q) (r q) = Fin hs" "- pi \<le> hs" "hs \<le> pi"
    using datan2_range[OF assms(3,4)] by blast
  obtain hd where hd: "datan2 (iy q) (ix q) = Fin hd" "- pi \<le> hd" "hd \<le> pi"
    using datan2_range[OF assms(2,1)] by blast
  have p: "0 < pi" by simp
  have b1: "- (2 * pi) \<le> hs + hd" "hs + hd \<le> 2 * pi"
    and b2: "- (2 * pi) \<le> hs - hd" "hs - hd \<le> 2 * pi"
    and b3: "- (2 * pi) \<le> 2 * hs" "2 * hs \<le> 2 * pi"
    and b4: "- (2 * pi) \<le> 2 * hd" "2 * hd \<le> 2 * pi"
    and b5: "- (2 * pi) \<le> (0::real)" "(0::real) \<le> 2 * pi"
    using hs hd p by simp_all
  note n = normalized_angle[OF b1] normalized_angle[OF b2] normalized_angle[OF b3]
    normalized_angle[OF b4] normalized_angle[OF b5]
  show ?thesis
    unfolding reb_rotation_to_orbital_def Let_def hs(1) hd(1)
    using n by (simp split: if_splits)
qed

text \<open>
  Claim C7, as stated, at the unit quaternion \<open>(r, ix, iy, iz) = (-1, 0, 0, 0)\<close>. The
  inclination is \<open>acos(1) = 0\<close>, so \<open>Omega\<close> is \<open>0\<close> and \<open>omega\<close> is
  \<open>2 * atan2(0, -1) = 2\<pi>\<close>, which is not negative and is returned as it is: \<open>omega\<close>
  is not below \<open>2\<pi>\<close>.
\<close>

theorem to_orbital_omega_is_two_pi:
  "reb_rotation_to_orbital \<lparr>ix = Fin 0, iy = Fin 0, iz = Fin 0, r = Fin (- 1)\<rparr>
     = (Fin 0, Fin 0, Fin (2 * pi))
   \<and> \<not> snd (snd (reb_rotation_to_orbital \<lparr>ix = Fin 0, iy = Fin 0, iz = Fin 0, r = Fin (- 1)\<rparr>))
        < Fin (2 * pi)
   \<and> unit_rot \<lparr>ix = Fin 0, iy = Fin 0, iz = Fin 0, r = Fin (- 1)\<rparr>"
  by (simp add: reb_rotation_to_orbital_def Let_def MIN_INC_def M_PI_def atan2_real_def
        unit_rot_def reb_rotation_length_squared_def)

text \<open>
  Claim C7, amended. For every quaternion none of whose components is NaN, the
  angles \<open>Omega\<close> and \<open>omega\<close> that \<^verbatim>\<open>reb_rotation_to_orbital\<close> returns lie in the
  closed interval from \<open>0\<close> to \<open>2\<pi>\<close>.
\<close>

theorem to_orbital_angles_in_closed_range:
  "ix q \<noteq> NaN \<and> iy q \<noteq> NaN \<and> iz q \<noteq> NaN \<and> r q \<noteq> NaN \<longrightarrow>
     Fin 0 \<le> fst (reb_rotation_to_orbital q) \<and> fst (reb_rotation_to_orbital q) \<le> Fin (2 * pi)
     \<and> Fin 0 \<le> snd (snd (reb_rotation_to_orbital q))
     \<and> snd (snd (reb_rotation_to_orbital q)) \<le> Fin (2 * pi)"
  using to_orbital_range[of q] by blast

theorem to_orbital_angles_in_closed_range_witness:
  "ix \<lparr>ix = Fin 1, iy = Fin (- 2), iz = PInf, r = Fin 3\<rparr> \<noteq> NaN
   \<and> iy \<lparr>ix = Fin 1, iy = Fin (- 2), iz = PInf, r = Fin 3\<rparr> \<noteq> NaN
   \<and> iz \<lparr>ix = Fin 1, iy = Fin (- 2), iz = PInf, r = Fin 3\<rparr> \<noteq> NaN
   \<and> r \<lparr>ix = Fin 1, iy = Fin (- 2), iz = PInf, r = Fin 3\<rparr> \<noteq> NaN
   \<and> Fin 0 \<le> fst (reb_rotation_to_orbital \<lparr>ix = Fin 1, iy = Fin (- 2), iz = PInf, r = Fin 3\<rparr>)
   \<and> fst (reb_rotation_to_orbital \<lparr>ix = Fin 1, iy = Fin (- 2), iz = PInf, r = Fin 3\<rparr>)
        \<le> Fin (2 * pi)
   \<and> Fin 0 \<le> snd (snd (reb_rotation_to_orbital
                  \<lparr>ix = Fin 1, iy = Fin (- 2), iz = PInf, r = Fin 3\<rparr>))
   \<and> snd (snd (reb_rotation_to_orbital \<lparr>ix = Fin 1, iy = Fin (- 2), iz = PInf, r = Fin 3\<rparr>))
        \<le> Fin (2 * pi)"
proof -
  have h: "ix \<lparr>ix = Fin 1, iy = Fin (- 2), iz = PInf, r = Fin 3\<rparr> \<noteq> NaN
   \<and> iy \<lparr>ix = Fin 1, iy = Fin (- 2), iz = PInf, r = Fin 3\<rparr> \<noteq> NaN
   \<and> iz \<lparr>ix = Fin 1, iy = Fin (- 2), iz = PInf, r = Fin 3\<rparr> \<noteq> NaN
   \<and> r \<lparr>ix = Fin 1, iy = Fin (- 2), iz = PInf, r = Fin 3\<rparr> \<noteq> NaN"
    by simp
  show ?thesis
    using to_orbital_angles_in_closed_range
      [of "\<lparr>ix = Fin 1, iy = Fin (- 2), iz = PInf, r = Fin 3\<rparr>"] h
    by blast
qed

section \<open>Orbital angles of a rotation built from orbital angles, in exact arithmetic\<close>

text \<open>
  With exact \<open>cos\<close>, \<open>sin\<close>, \<open>acos\<close> and \<open>atan2\<close>, \<open>\<pi>\<close> for \<^verbatim>\<open>M_PI\<close> and no rounding:
  for an inclination \<open>i\<close> with \<open>MIN_INC < i < \<pi> - MIN_INC\<close>,
  \<^verbatim>\<open>reb_rotation_to_orbital\<close> applied to \<^verbatim>\<open>reb_rotation_init_orbital(Omega, i, omega)\<close>
  returns \<open>i\<close> and two angles that differ from \<open>Omega\<close> and \<open>omega\<close> by whole multiples
  of \<open>2\<pi>\<close>.
\<close>

lemma sqrt_one_plus_ratio:
  fixes a b :: real
  assumes "a \<noteq> 0"
  shows "sqrt (1 + (b / a)\<^sup>2) = sqrt (a\<^sup>2 + b\<^sup>2) / \<bar>a\<bar>"
proof -
  have "1 + (b / a)\<^sup>2 = (a\<^sup>2 + b\<^sup>2) / a\<^sup>2"
    using assms by (simp add: field_simps power2_eq_square)
  then have "sqrt (1 + (b / a)\<^sup>2) = sqrt (a\<^sup>2 + b\<^sup>2) / sqrt (a\<^sup>2)"
    by (simp add: real_sqrt_divide)
  then show ?thesis by simp
qed

lemma atan2_real_cos_sin:
  fixes a b :: real
  assumes "a \<noteq> 0 \<or> b \<noteq> 0"
  shows "cos (atan2_real b a) = a / sqrt (a\<^sup>2 + b\<^sup>2)
       \<and> sin (atan2_real b a) = b / sqrt (a\<^sup>2 + b\<^sup>2)"
proof -
  consider "0 < a" | "a < 0" "0 \<le> b" | "a < 0" "b < 0" | "a = 0" "0 < b" | "a = 0" "b < 0"
    using assms by linarith
  then show ?thesis
  proof cases
    case 1
    then have e: "atan2_real b a = arctan (b / a)" by (simp add: atan2_real_def)
    have s: "sqrt (1 + (b / a)\<^sup>2) = sqrt (a\<^sup>2 + b\<^sup>2) / a"
      using sqrt_one_plus_ratio[of a b] 1 by simp
    show ?thesis unfolding e cos_arctan sin_arctan s using 1 by simp
  next
    case 2
    then have e: "atan2_real b a = arctan (b / a) + pi" by (simp add: atan2_real_def)
    have s: "sqrt (1 + (b / a)\<^sup>2) = sqrt (a\<^sup>2 + b\<^sup>2) / (- a)"
      using sqrt_one_plus_ratio[of a b] 2 by simp
    show ?thesis unfolding e using 2 by (simp add: cos_arctan sin_arctan s)
  next
    case 3
    then have e: "atan2_real b a = arctan (b / a) - pi" by (simp add: atan2_real_def)
    have s: "sqrt (1 + (b / a)\<^sup>2) = sqrt (a\<^sup>2 + b\<^sup>2) / (- a)"
      using sqrt_one_plus_ratio[of a b] 3 by simp
    show ?thesis unfolding e using 3 by (simp add: cos_arctan sin_arctan s cos_diff sin_diff)
  next
    case 4
    then have e: "atan2_real b a = pi / 2" by (simp add: atan2_real_def)
    show ?thesis unfolding e using 4 by simp
  next
    case 5
    then have e: "atan2_real b a = - (pi / 2)" by (simp add: atan2_real_def)
    show ?thesis unfolding e using 5 by simp
  qed
qed

lemma atan2_real_polar:
  fixes k t :: real
  assumes "0 < k"
  shows "\<exists>n::int. atan2_real (k * sin t) (k * cos t) = t + 2 * pi * n"
proof -
  have nz: "k * cos t \<noteq> 0 \<or> k * sin t \<noteq> 0"
  proof (rule ccontr)
    assume "\<not> ?thesis"
    then have "cos t = 0" "sin t = 0" using assms by simp_all
    then show False using sin_cos_squared_add3[of t] by simp
  qed
  have cs: "(cos t)\<^sup>2 + (sin t)\<^sup>2 = 1" by simp
  have "(k * cos t)\<^sup>2 + (k * sin t)\<^sup>2 = k\<^sup>2" using cs by algebra
  then have s: "sqrt ((k * cos t)\<^sup>2 + (k * sin t)\<^sup>2) = k" using assms by simp
  from atan2_real_cos_sin[OF nz] have
    "sin (atan2_real (k * sin t) (k * cos t)) = sin t \<and> cos (atan2_real (k * sin t) (k * cos t)) = cos t"
    unfolding s using assms by simp
  then show ?thesis by (simp only: sin_cos_eq_iff)
qed

lemma angle_axis_z:
  "reb_rotation_init_angle_axis (Fin th) \<lparr>x = Fin 0, y = Fin 0, z = Fin 1\<rparr>
   = \<lparr>ix = Fin 0, iy = Fin 0, iz = Fin (sin (th / 2)), r = Fin (cos (th / 2))\<rparr>"
  using angle_axis_Fin[of 0 0 1 th] by simp

lemma angle_axis_x:
  "reb_rotation_init_angle_axis (Fin th) \<lparr>x = Fin 1, y = Fin 0, z = Fin 0\<rparr>
   = \<lparr>ix = Fin (sin (th / 2)), iy = Fin 0, iz = Fin 0, r = Fin (cos (th / 2))\<rparr>"
  using angle_axis_Fin[of 1 0 0 th] by simp

lemma init_orbital_Fin:
  "reb_rotation_init_orbital (Fin Om) (Fin i) (Fin om) =
     \<lparr>ix = Fin (sin (i / 2) * cos ((Om - om) / 2)),
      iy = Fin (sin (i / 2) * sin ((Om - om) / 2)),
      iz = Fin (cos (i / 2) * sin ((Om + om) / 2)),
      r = Fin (cos (i / 2) * cos ((Om + om) / 2))\<rparr>"
proof -
  have s: "(Om + om) / 2 = Om / 2 + om / 2" "(Om - om) / 2 = Om / 2 - om / 2"
    by (simp_all add: add_divide_distrib diff_divide_distrib)
  show ?thesis
    unfolding reb_rotation_init_orbital_def Let_def angle_axis_z angle_axis_x s
      cos_add sin_add cos_diff sin_diff
    by (simp add: reb_rotation_mul_def algebra_simps)
qed

lemma congruent_after_normalize:
  fixes t0 t :: real and n :: int
  assumes "t = t0 + 2 * pi * n"
  shows "\<exists>t' (m::int). (if Fin t < Fin 0 then Fin t + M_PI * Fin 2 else Fin t) = Fin t'
            \<and> t' = t0 + 2 * pi * m"
proof (cases "t < 0")
  case True
  have "t + pi * 2 = t0 + 2 * pi * (n + 1)" using assms by (simp add: algebra_simps)
  then show ?thesis using True by (auto simp: M_PI_def simp del: of_int_add)
next
  case False
  then show ?thesis using assms by auto
qed

lemma orbital_roundtrip:
  assumes "MIN_INC < Fin i" "Fin i < M_PI - MIN_INC"
  shows "\<exists>Om' om' (k::int) (l::int).
           reb_rotation_to_orbital (reb_rotation_init_orbital (Fin Om) (Fin i) (Fin om))
             = (Fin Om', Fin i, Fin om')
           \<and> Om' = Om + 2 * pi * k \<and> om' = om + 2 * pi * l"
proof -
  have ilo: "1 / 10 ^ 8 < i" and ihi: "i < pi - 1 / 10 ^ 8"
    using assms by (simp_all add: MIN_INC_def M_PI_def)
  have i0: "0 < i" and ipi: "i < pi" using ilo ihi by simp_all
  define cI sI where "cI = cos (i / 2)" and "sI = sin (i / 2)"
  have cpos: "0 < cI" unfolding cI_def using i0 ipi by (intro cos_gt_zero_pi) simp_all
  have spos: "0 < sI" unfolding sI_def using i0 ipi by (intro sin_gt_zero) simp_all
  define sg df where "sg = (Om + om) / 2" and "df = (Om - om) / 2"
  have q: "reb_rotation_init_orbital (Fin Om) (Fin i) (Fin om) =
     \<lparr>ix = Fin (sI * cos df), iy = Fin (sI * sin df),
      iz = Fin (cI * sin sg), r = Fin (cI * cos sg)\<rparr>"
    unfolding cI_def sI_def sg_def df_def by (rule init_orbital_Fin)
  have "cI * cos sg * (cI * cos sg) + cI * sin sg * (cI * sin sg)
        = cI * cI * ((cos sg)\<^sup>2 + (sin sg)\<^sup>2)"
    by algebra
  then have ab: "cI * cos sg * (cI * cos sg) + cI * sin sg * (cI * sin sg) = cI * cI"
    by (simp del: sin_cos_squared_add2 add: sin_cos_squared_add2[of sg])
  have "cos i = cos (2 * (i / 2))" by simp
  also have "\<dots> = 2 * (cI * cI) - 1"
    unfolding cI_def by (subst cos_double_cos) (simp add: power2_eq_square)
  finally have arg: "2 * (cI * cI) - 1 = cos i" by simp
  have inc: "dacos (Fin 2 * (Fin (cI * cos sg) * Fin (cI * cos sg)
               + Fin (cI * sin sg) * Fin (cI * sin sg)) - Fin 1) = Fin i"
    using i0 ipi by (simp add: ab arg arccos_cos)
  have safe1: "MIN_INC < dfabs (Fin i)" using ilo i0 by (simp add: MIN_INC_def)
  have safe2: "MIN_INC < dfabs (Fin i - M_PI)" using ihi by (simp add: MIN_INC_def M_PI_def)
  obtain n1 :: int where hs: "atan2_real (cI * sin sg) (cI * cos sg) = sg + 2 * pi * n1"
    using atan2_real_polar[OF cpos] by blast
  obtain n2 :: int where hd: "atan2_real (sI * sin df) (sI * cos df) = df + 2 * pi * n2"
    using atan2_real_polar[OF spos] by blast
  have Oraw: "(sg + 2 * pi * n1) + (df + 2 * pi * n2) = Om + 2 * pi * (n1 + n2)"
    unfolding sg_def df_def by (simp add: field_simps)
  have oraw: "(sg + 2 * pi * n1) - (df + 2 * pi * n2) = om + 2 * pi * (n1 - n2)"
    unfolding sg_def df_def by (simp add: field_simps)
  obtain Om' k where Om': "(if Fin (Om + 2 * pi * (n1 + n2)) < Fin 0
              then Fin (Om + 2 * pi * (n1 + n2)) + M_PI * Fin 2
              else Fin (Om + 2 * pi * (n1 + n2))) = Fin Om'" "Om' = Om + 2 * pi * of_int k"
    using congruent_after_normalize[of "Om + 2 * pi * (n1 + n2)" Om "n1 + n2"] by auto
  obtain om' l where om': "(if Fin (om + 2 * pi * (n1 - n2)) < Fin 0
              then Fin (om + 2 * pi * (n1 - n2)) + M_PI * Fin 2
              else Fin (om + 2 * pi * (n1 - n2))) = Fin om'" "om' = om + 2 * pi * of_int l"
    using congruent_after_normalize[of "om + 2 * pi * (n1 - n2)" om "n1 - n2"] by auto
  have "reb_rotation_to_orbital (reb_rotation_init_orbital (Fin Om) (Fin i) (Fin om))
          = (Fin Om', Fin i, Fin om')"
    unfolding q reb_rotation_to_orbital_def
    apply (simp only: Let_def reb_rotation.simps inc safe1 safe2 datan2.simps hs hd
        plus_dbl.simps minus_Fin Oraw oraw)
    apply (simp only: Om'(1) om'(1) if_True simp_thms split_conv)
    done
  then show ?thesis using Om'(2) om'(2) by blast
qed

end
